theory Spec2Isabelle
  imports Main "HOL-Library.Sublist" "HOL-Library.AList"
begin

section \<open>Strings\<close>

text \<open>
  Python strings are modelled as \<^typ>\<open>string\<close>, one \<^typ>\<open>char\<close> per code point, so the
  model covers the labels whose code points lie in U+0000..U+00FF (the only non-ASCII
  characters of the source, U+00C3 and U+00BC in one key of \<open>COUNTRY_CODE_MAP\<close>, are in
  that range) and \<open>length\<close> is Python's \<open>len\<close>. On that range \<open>str.lower\<close> maps
  \<open>A..Z\<close> and U+00C0..U+00DE (without the multiplication sign U+00D7) to the character
  32 places further on and leaves every other character alone.

  \<open>str.upper\<close> leaves the range: on it, \<open>a..z\<close> and U+00E0..U+00FE (without the
  division sign U+00F7) move 32 places back, U+00DF becomes the two characters SS,
  U+00B5 becomes U+039C, U+00FF becomes U+0178, and every other character stays. So
  what \<open>upper\<close> returns, a code, is a list of code points, an \<open>ustring\<close>; \<open>wide\<close> reads a
  string of the range as such a list. The strings of a JSON document are lists of code
  points as well.
\<close>

type_synonym ustring = "nat list"

definition wide :: "string \<Rightarrow> ustring" where
  "wide s = map of_char s"

definition lower_char :: "char \<Rightarrow> char" where
  "lower_char c = (let n = (of_char c :: nat) in
     if (65 \<le> n \<and> n \<le> 90) \<or> (192 \<le> n \<and> n \<le> 222 \<and> n \<noteq> 215)
     then char_of (n + 32) else c)"

definition upper_char :: "char \<Rightarrow> ustring" where
  "upper_char c = (let n = (of_char c :: nat) in
     if c = CHR 0xDF then [0x53, 0x53]
     else if c = CHR 0xB5 then [0x39C]
     else if c = CHR 0xFF then [0x178]
     else if (97 \<le> n \<and> n \<le> 122) \<or> (224 \<le> n \<and> n \<le> 254 \<and> n \<noteq> 247)
     then [n - 32] else [n])"

definition lower :: "string \<Rightarrow> string" where
  "lower s = map lower_char s"

definition upper :: "string \<Rightarrow> ustring" where
  "upper s = concat (map upper_char s)"

text \<open>Python's \<open>a in b\<close> on strings: \<open>a\<close> occurs in \<open>b\<close> as a contiguous substring.\<close>

definition str_in :: "string \<Rightarrow> string \<Rightarrow> bool" where
  "str_in a b = sublist a b"

section \<open>scrape\_data.py: the static tables\<close>

text \<open>
  \<open>HISTORICAL_COUNTRIES\<close> is a Python set (its literal names Czechoslovakia twice); it is
  listed here once per element, in the order of the literal. The source only tests
  membership in it and whether some element satisfies a condition, so the order in
  which Python iterates it decides no result modelled below except the name a
  discarded row is renamed to.
\<close>

definition HISTORICAL_COUNTRIES :: "string list" where
  "HISTORICAL_COUNTRIES =
    [''Soviet Union'',
     ''Yugoslavia'',
     ''East Germany'',
     ''Czechoslovakia'',
     ''German Democratic Republic'',
     ''Socialist Federal Republic of Yugoslavia'',
     ''Commonwealth of Independent States'',
     ''Serbia and Montenegro'',
     ''CIS'',
     ''Union of Soviet Socialist Republics'']"

text \<open>
  \<open>COUNTRY_CODE_MAP\<close> is a dict literal; Python iterates it in the order of the literal.
  It is the association list of the literal's lines, in that order. The literal has the
  key Albania twice, both times with the value ALB, so looking a key up with
  \<^const>\<open>map_of\<close> and scanning for the first entry that satisfies a condition give what
  the dict gives.
\<close>

definition COUNTRY_CODE_MAP :: "(string \<times> string) list" where
  "COUNTRY_CODE_MAP =
    [(''United States'', ''USA''),
     (''United States of America'', ''USA''),
     (''China'', ''CHN''),
     (''People'' @ [CHR 0x27] @ ''s Republic of China'', ''CHN''),
     (''Russia'', ''RUS''),
     (''South Korea'', ''KOR''),
     (''Republic of Korea'', ''KOR''),
     (''Hungary'', ''HUN''),
     (''Romania'', ''ROU''),
     (''Vietnam'', ''VNM''),
     (''United Kingdom'', ''GBR''),
     (''Bulgaria'', ''BGR''),
     (''Germany'', ''DEU''),
     (''Iran'', ''IRN''),
     (''Islamic Republic of Iran'', ''IRN''),
     (''Japan'', ''JPN''),
     (''Taiwan'', ''TWN''),
     (''Ukraine'', ''UKR''),
     (''Canada'', ''CAN''),
     (''Poland'', ''POL''),
     (''Thailand'', ''THA''),
     (''Australia'', ''AUS''),
     (''Singapore'', ''SGP''),
     (''France'', ''FRA''),
     (''Israel'', ''ISR''),
     (''Turkey'', ''TUR''),
     (''T'' @ [CHR 0xC3] @ [CHR 0xBC] @ ''rkiye'', ''TUR''),
     (''Italy'', ''ITA''),
     (''India'', ''IND''),
     (''North Korea'', ''PRK''),
     (''Democratic People'' @ [CHR 0x27] @ ''s Republic of Korea'', ''PRK''),
     (''Belarus'', ''BLR''),
     (''Kazakhstan'', ''KAZ''),
     (''Hong Kong'', ''HKG''),
     (''Serbia'', ''SRB''),
     (''Brazil'', ''BRA''),
     (''Austria'', ''AUT''),
     (''Netherlands'', ''NLD''),
     (''Mongolia'', ''MNG''),
     (''Peru'', ''PER''),
     (''Slovakia'', ''SVK''),
     (''Czech Republic'', ''CZE''),
     (''Sweden'', ''SWE''),
     (''Mexico'', ''MEX''),
     (''Croatia'', ''HRV''),
     (''Indonesia'', ''IDN''),
     (''Argentina'', ''ARG''),
     (''Georgia'', ''GEO''),
     (''Malaysia'', ''MYS''),
     (''Greece'', ''GRC''),
     (''Moldova'', ''MDA''),
     (''Philippines'', ''PHL''),
     (''Switzerland'', ''CHE''),
     (''Bosnia and Herzegovina'', ''BIH''),
     (''Norway'', ''NOR''),
     (''North Macedonia'', ''MKD''),
     (''Portugal'', ''PRT''),
     (''Belgium'', ''BEL''),
     (''New Zealand'', ''NZL''),
     (''Lithuania'', ''LTU''),
     (''Macau'', ''MAC''),
     (''Luxembourg'', ''LUX''),
     (''Armenia'', ''ARM''),
     (''Colombia'', ''COL''),
     (''South Africa'', ''ZAF''),
     (''Finland'', ''FIN''),
     (''Latvia'', ''LVA''),
     (''Slovenia'', ''SVN''),
     (''Bangladesh'', ''BGD''),
     (''Cuba'', ''CUB''),
     (''Denmark'', ''DNK''),
     (''Tunisia'', ''TUN''),
     (''Kyrgyzstan'', ''KGZ''),
     (''Algeria'', ''DZA''),
     (''Uzbekistan'', ''UZB''),
     (''Saudi Arabia'', ''SAU''),
     (''Estonia'', ''EST''),
     (''Spain'', ''ESP''),
     (''Azerbaijan'', ''AZE''),
     (''Turkmenistan'', ''TKM''),
     (''Cyprus'', ''CYP''),
     (''Tajikistan'', ''TJK''),
     (''Syria'', ''SYR''),
     (''Morocco'', ''MAR''),
     (''Ireland'', ''IRL''),
     (''Chile'', ''CHL''),
     (''Montenegro'', ''MNE''),
     (''Albania'', ''ALB''),
     (''Pakistan'', ''PAK''),
     (''Trinidad and Tobago'', ''TTO''),
     (''Venezuela'', ''VEN''),
     (''Costa Rica'', ''CRI''),
     (''Iceland'', ''ISL''),
     (''Paraguay'', ''PRY''),
     (''El Salvador'', ''SLV''),
     (''Liechtenstein'', ''LIE''),
     (''Ivory Coast'', ''CIV''),
     (''Sri Lanka'', ''LKA''),
     (''Ecuador'', ''ECU''),
     (''Afghanistan'', ''AFG''),
     (''Albania'', ''ALB''),
     (''Bahrain'', ''BHR''),
     (''Benin'', ''BEN''),
     (''Bolivia'', ''BOL''),
     (''Botswana'', ''BWA''),
     (''Brunei'', ''BRN''),
     (''Burkina Faso'', ''BFA''),
     (''Cambodia'', ''KHM''),
     (''Egypt'', ''EGY''),
     (''Gambia'', ''GMB''),
     (''Ghana'', ''GHA''),
     (''Guatemala'', ''GTM''),
     (''Honduras'', ''HND''),
     (''Iraq'', ''IRQ''),
     (''Kenya'', ''LKA''),
     (''Kosovo'', ''KSV''),
     (''Kuwait'', ''KWT''),
     (''Madagascar'', ''MDG''),
     (''Mauritania'', ''MRT''),
     (''Mozambique'', ''MOZ''),
     (''Myanmar'', ''MMR''),
     (''Nepal'', ''NPL''),
     (''Nicaragua'', ''NIC''),
     (''Nigeria'', ''NGA''),
     (''Panama'', ''PAN''),
     (''Puerto Rico'', ''PRI''),
     (''Qatar'', ''QAT''),
     (''Senegal'', ''SEN''),
     (''Suriname'', ''SUR''),
     (''Tanzania'', ''TZA''),
     (''Uganda'', ''UGA''),
     (''United Arab Emirates'', ''ARE''),
     (''Uruguay'', ''URY''),
     (''Zimbabwe'', ''ZWE''),
     (''Jordan'', ''JOR''),
     (''Malta'', ''MLT''),
     (''Palestine'', ''PSE''),
     (''Dominican Republic'', ''DOM''),
     (''Gabon'', ''GAB''),
     (''Libya'', ''LBY''),
     (''Mauritius'', ''MUS''),
     (''Rwanda'', ''RWA'')]"

section \<open>scrape\_data.py: the three table parsers\<close>

text \<open>
  Fetching the page and parsing its markup are left to the libraries. A parser's input
  is what it reads off the parsed table: \<open>None\<close> when no table was found, otherwise the
  rows of the table (\<open>table.find_all("tr")\<close>), each row the list of its cells. Of a cell
  the parsers read its text (\<open>get_text(strip=True)\<close>), its anchors in document order (the
  text of each and its \<open>title\<close> attribute, the empty string when it has none) and the
  integer its text denotes (\<open>int(...)\<close>; \<open>None\<close> when that raises \<open>ValueError\<close>).
  The progress lines the parsers print are left out.
\<close>

record cell =
  cell_text :: string
  links :: "(string \<times> string) list"
  as_int :: "int option"

type_synonym row = "cell list"

record medal_tally =
  gold :: int
  silver :: int
  bronze :: int
  total :: int

text \<open>
  The dict \<open>data\<close> a parser fills: an association list in insertion order;
  \<open>data[country_name] = ...\<close> is \<^const>\<open>AList.update\<close> (an existing key keeps its place).
\<close>

type_synonym data_dict = "(string \<times> medal_tally) list"

definition tally :: "int \<Rightarrow> int \<Rightarrow> int \<Rightarrow> medal_tally" where
  "tally g s b = \<lparr>gold = g, silver = s, bronze = b, total = g + s + b\<rparr>"

text \<open>
  The \<open>try\<close> block of a row: the three \<open>int(...)\<close> calls, then the store. A cell that is
  missing (\<open>IndexError\<close>) or does not hold an integer (\<open>ValueError\<close>) skips the row.
\<close>

definition int_at :: "row \<Rightarrow> nat \<Rightarrow> int option" where
  "int_at cells i = (if i < length cells then as_int (cells ! i) else None)"

definition store_row :: "string \<Rightarrow> row \<Rightarrow> nat \<Rightarrow> nat \<Rightarrow> nat \<Rightarrow> data_dict \<Rightarrow> data_dict" where
  "store_row country_name cells i j k data =
     (case int_at cells i of
        None \<Rightarrow> data
      | Some g \<Rightarrow>
          (case int_at cells j of
             None \<Rightarrow> data
           | Some s \<Rightarrow>
               (case int_at cells k of
                  None \<Rightarrow> data
                | Some b \<Rightarrow> AList.update country_name (tally g s b) data)))"

text \<open>
  \<open>parse_imo_data\<close>, lines 204 to 217: the country name is the text of the last anchor
  that is not a footnote link, or the cell's text when the cell has no anchor.
\<close>

definition imo_country_name :: "cell \<Rightarrow> string" where
  "imo_country_name country_cell =
     (if links country_cell \<noteq> []
      then fold (\<lambda>(txt, title) country_name.
                   if txt \<noteq> [] \<and> length txt > 1 \<and> (txt = title \<or> title = [])
                   then txt else country_name)
                (links country_cell) []
      else cell_text country_cell)"

text \<open>Lines 225 to 230: the first historical name that occurs in the cell's text.\<close>

definition historical_in :: "string \<Rightarrow> string option" where
  "historical_in txt =
     find (\<lambda>historical. str_in (lower historical) (lower txt)) HISTORICAL_COUNTRIES"

definition imo_row :: "row \<Rightarrow> data_dict \<Rightarrow> data_dict" where
  "imo_row cells data =
     (if length cells < 6 then data
      else let country_cell = cells ! 1;
               country_name = imo_country_name country_cell
           in if length country_name \<le> 2 then data
              else let found = historical_in (cell_text country_cell);
                       country_name = (case found of Some historical \<Rightarrow> historical
                                       | None \<Rightarrow> country_name);
                       is_historical = (found \<noteq> None)
                   in if is_historical \<and> country_name \<in> set HISTORICAL_COUNTRIES then data
                      else store_row country_name cells 2 3 4 data)"

definition parse_imo_data :: "row list option \<Rightarrow> data_dict" where
  "parse_imo_data table =
     (case table of None \<Rightarrow> [] | Some rows \<Rightarrow> fold imo_row (tl rows) [])"

text \<open>
  \<open>parse_ioi_data\<close> and \<open>parse_ipho_data\<close>, lines 280 to 284 and 335 to 339: the text of
  the first anchor of the second cell, or the cell's text.
\<close>

definition link_country_name :: "cell \<Rightarrow> string" where
  "link_country_name c = (case links c of [] \<Rightarrow> cell_text c | (txt, title) # _ \<Rightarrow> txt)"

definition ioi_row :: "row \<Rightarrow> data_dict \<Rightarrow> data_dict" where
  "ioi_row cells data =
     (if length cells < 6 then data
      else let country_name = link_country_name (cells ! 1)
           in if country_name \<in> set HISTORICAL_COUNTRIES then data
              else store_row country_name cells 3 4 5 data)"

definition parse_ioi_data :: "row list option \<Rightarrow> data_dict" where
  "parse_ioi_data table =
     (case table of None \<Rightarrow> [] | Some rows \<Rightarrow> fold ioi_row (tl rows) [])"

definition ipho_row :: "row \<Rightarrow> data_dict \<Rightarrow> data_dict" where
  "ipho_row cells data =
     (if length cells < 6 then data
      else let country_name = link_country_name (cells ! 1)
           in if country_name \<in> set HISTORICAL_COUNTRIES then data
              else store_row country_name cells 4 5 6 data)"

definition parse_ipho_data :: "row list option \<Rightarrow> data_dict" where
  "parse_ipho_data table =
     (case table of None \<Rightarrow> [] | Some rows \<Rightarrow> fold ipho_row (tl rows) [])"

section \<open>scrape\_data.py: normalize\_country\_names\<close>

text \<open>\<open>not code\<close>: \<open>code\<close> is \<open>None\<close> or the empty string.\<close>

definition not_code :: "string option \<Rightarrow> bool" where
  "not_code code = (case code of None \<Rightarrow> True | Some c \<Rightarrow> c = [])"

text \<open>The condition of the partial match, lines 379 to 382, on one item of the dict.\<close>

definition partial_match :: "string \<Rightarrow> string \<times> string \<Rightarrow> bool" where
  "partial_match country_name item =
     (str_in (lower (fst item)) (lower country_name)
      \<or> str_in (lower country_name) (lower (fst item)))"

definition warning :: "string \<Rightarrow> string" where
  "warning country_name =
     ''Warning: No ISO code found for '' @ [CHR 0x27] @ country_name @ [CHR 0x27]"

text \<open>
  Lines 373 to 389, the part of the loop body that finds the code of one label: the
  code, and the lines it prints.
\<close>

definition resolve_code :: "string \<Rightarrow> ustring \<times> string list" where
  "resolve_code country_name =
     (let code = map_of COUNTRY_CODE_MAP country_name;
          code = (if not_code code
                  then (case find (partial_match country_name) COUNTRY_CODE_MAP of
                          Some (name, iso_code) \<Rightarrow> Some iso_code
                        | None \<Rightarrow> code)
                  else code)
      in case code of
           None \<Rightarrow> (upper (take 3 country_name), [warning country_name])
         | Some c \<Rightarrow> if c = [] then (upper (take 3 country_name), [warning country_name])
                     else (wide c, []))"

record info =
  name :: string
  medals :: medal_tally

type_synonym normalized_dict = "(ustring \<times> info) list"

text \<open>
  One turn of the loop, lines 372 to 399, on the dict \<open>normalized\<close> and the lines printed
  so far.
\<close>

definition normalize_item ::
  "string \<times> medal_tally \<Rightarrow> normalized_dict \<times> string list \<Rightarrow> normalized_dict \<times> string list" where
  "normalize_item item st =
     (case item of (country_name, m) \<Rightarrow>
      case st of (normalized, out) \<Rightarrow>
      case resolve_code country_name of (code, printed) \<Rightarrow>
        (case map_of normalized code of
           None \<Rightarrow> (AList.update code \<lparr>name = country_name, medals = m\<rparr> normalized, out @ printed)
         | Some existing \<Rightarrow>
             if length country_name \<ge> length (name existing)
             then (normalized, out @ printed)
             else (AList.update code \<lparr>name = country_name, medals = m\<rparr> normalized,
                   out @ printed)))"

definition normalize_country_names :: "data_dict \<Rightarrow> normalized_dict \<times> string list" where
  "normalize_country_names data_dict = fold normalize_item data_dict ([], [])"

section \<open>scrape\_data.py: aggregate\_data\<close>

record medal_table =
  IMO :: medal_tally
  IOI :: medal_tally
  IPhO :: medal_tally
  combined :: medal_tally

record country =
  code :: ustring
  country_name :: "string option"
  country_medals :: medal_table

definition zero_tally :: medal_tally where
  "zero_tally = \<lparr>gold = 0, silver = 0, bronze = 0, total = 0\<rparr>"

text \<open>
  \<open>x_info = x_normalized.get(code, {})\<close> is an \<^typ>\<open>info option\<close>, \<open>None\<close> for the empty
  dict; \<open>.get("name")\<close> and \<open>.get("medals", zero)\<close> on it:
\<close>

definition get_name :: "info option \<Rightarrow> string option" where
  "get_name i = map_option name i"

definition get_medals :: "info option \<Rightarrow> medal_tally" where
  "get_medals i = (case i of None \<Rightarrow> zero_tally | Some x \<Rightarrow> medals x)"

text \<open>Python's \<open>a or b\<close> on names: \<open>a\<close> unless it is \<open>None\<close> or empty.\<close>

definition py_or :: "string option \<Rightarrow> string option \<Rightarrow> string option" where
  "py_or a b = (if a = None \<or> a = Some [] then b else a)"

text \<open>The body of the loop over \<open>all_codes\<close>, lines 425 to 471: the entry appended.\<close>

definition aggregate_code ::
  "normalized_dict \<Rightarrow> normalized_dict \<Rightarrow> normalized_dict \<Rightarrow> ustring \<Rightarrow> country" where
  "aggregate_code imo_normalized ioi_normalized ipho_normalized c =
     (let imo_info = map_of imo_normalized c;
          ioi_info = map_of ioi_normalized c;
          ipho_info = map_of ipho_normalized c;
          nm = py_or (get_name imo_info) (py_or (get_name ioi_info) (get_name ipho_info));
          imo_medals = get_medals imo_info;
          ioi_medals = get_medals ioi_info;
          ipho_medals = get_medals ipho_info;
          combined_total = total imo_medals + total ioi_medals + total ipho_medals;
          combined_gold = gold imo_medals + gold ioi_medals + gold ipho_medals;
          combined_silver = silver imo_medals + silver ioi_medals + silver ipho_medals;
          combined_bronze = bronze imo_medals + bronze ioi_medals + bronze ipho_medals
      in \<lparr>code = c, country_name = nm,
          country_medals = \<lparr>IMO = imo_medals, IOI = ioi_medals, IPhO = ipho_medals,
            combined = \<lparr>gold = combined_gold, silver = combined_silver,
                         bronze = combined_bronze, total = combined_total\<rparr>\<rparr>\<rparr>)"

text \<open>
  \<open>all_codes\<close> is a Python set. The loop over it visits every element once, in an order
  Python does not fix; \<open>iterates order S\<close> says that \<open>order\<close> is such a visit of \<open>S\<close>, and
  \<open>aggregate_data\<close> takes the order of the visit as its first argument.
\<close>

definition all_codes :: "data_dict \<Rightarrow> data_dict \<Rightarrow> data_dict \<Rightarrow> ustring set" where
  "all_codes imo_data ioi_data ipho_data =
     set (map fst (fst (normalize_country_names imo_data)))
     \<union> set (map fst (fst (normalize_country_names ioi_data)))
     \<union> set (map fst (fst (normalize_country_names ipho_data)))"

definition iterates :: "'a list \<Rightarrow> 'a set \<Rightarrow> bool" where
  "iterates order S = (distinct order \<and> set order = S)"

text \<open>
  \<open>result.sort(key=..., reverse=True)\<close> is stable and keeps entries of equal key in their
  order; so does \<^const>\<open>sort_key\<close> on the negated key.
\<close>

definition combined_total :: "country \<Rightarrow> int" where
  "combined_total x = total (combined (country_medals x))"

definition aggregate_data ::
  "ustring list \<Rightarrow> data_dict \<Rightarrow> data_dict \<Rightarrow> data_dict \<Rightarrow> country list" where
  "aggregate_data order imo_data ioi_data ipho_data =
     (let imo_normalized = fst (normalize_country_names imo_data);
          ioi_normalized = fst (normalize_country_names ioi_data);
          ipho_normalized = fst (normalize_country_names ipho_data);
          result = map (aggregate_code imo_normalized ioi_normalized ipho_normalized) order
      in sort_key (\<lambda>x. - combined_total x) result)"

section \<open>scrape\_data.py: the document written by main\<close>

text \<open>
  A JSON value as \<open>json.load\<close> and \<open>json.dump\<close> see it; an object is a Python dict, an
  association list in insertion order. Numbers are integers: no number of the
  document is read by the code modelled here.
\<close>

datatype json =
  JNull
  | JBool bool
  | JInt int
  | JStr ustring
  | JArr "json list"
  | JObj "(string \<times> json) list"

definition tally_json :: "medal_tally \<Rightarrow> json" where
  "tally_json m =
     JObj [(''gold'', JInt (gold m)), (''silver'', JInt (silver m)),
           (''bronze'', JInt (bronze m)), (''total'', JInt (total m))]"

definition country_json :: "country \<Rightarrow> json" where
  "country_json x =
     JObj [(''code'', JStr (code x)),
           (''name'', (case country_name x of None \<Rightarrow> JNull | Some n \<Rightarrow> JStr (wide n))),
           (''medals'',
             JObj [(''IMO'', tally_json (IMO (country_medals x))),
                   (''IOI'', tally_json (IOI (country_medals x))),
                   (''IPhO'', tally_json (IPhO (country_medals x))),
                   (''combined'', tally_json (combined (country_medals x)))])]"

text \<open>
  \<open>output\<close> in \<open>main\<close>, lines 500 to 508; \<open>generated\<close> is \<open>datetime.now().isoformat()\<close>.
\<close>

definition output_document :: "country list \<Rightarrow> string \<Rightarrow> json" where
  "output_document aggregated generated =
     JObj [(''countries'', JArr (map country_json aggregated)),
           (''metadata'',
             JObj [(''imo_years'', JStr (wide ''1959-2025'')),
                   (''ioi_years'', JStr (wide ''1989-2025'')),
                   (''ipho_years'', JStr (wide ''1967-2025'')),
                   (''generated'', JStr (wide generated))])]"

section \<open>add\_alpha2\_codes.py\<close>

definition ALPHA3_TO_ALPHA2 :: "(string \<times> string) list" where
  "ALPHA3_TO_ALPHA2 =
    [(''AFG'', ''AF''),
     (''ALB'', ''AL''),
     (''ARE'', ''AE''),
     (''ARG'', ''AR''),
     (''ARM'', ''AM''),
     (''AUS'', ''AU''),
     (''AUT'', ''AT''),
     (''AZE'', ''AZ''),
     (''BEL'', ''BE''),
     (''BEN'', ''BJ''),
     (''BFA'', ''BF''),
     (''BGD'', ''BD''),
     (''BGR'', ''BG''),
     (''BHR'', ''BH''),
     (''BIH'', ''BA''),
     (''BLR'', ''BY''),
     (''BOL'', ''BO''),
     (''BRA'', ''BR''),
     (''BRN'', ''BH''),
     (''BWA'', ''BW''),
     (''CAN'', ''CA''),
     (''CHE'', ''CH''),
     (''CHL'', ''CL''),
     (''CHN'', ''CN''),
     (''CIV'', ''CI''),
     (''COL'', ''CO''),
     (''CRI'', ''CR''),
     (''CUB'', ''CU''),
     (''CYP'', ''CY''),
     (''CZE'', ''CZ''),
     (''DEU'', ''DE''),
     (''DNK'', ''DK''),
     (''DOM'', ''DO''),
     (''DZA'', ''DZ''),
     (''ECU'', ''EC''),
     (''EGY'', ''EG''),
     (''ESP'', ''ES''),
     (''EST'', ''EE''),
     (''FIN'', ''FI''),
     (''FRA'', ''FR''),
     (''GAB'', ''GA''),
     (''GBR'', ''GB''),
     (''GEO'', ''GE''),
     (''GHA'', ''GH''),
     (''GMB'', ''GM''),
     (''GRC'', ''GR''),
     (''GTM'', ''GT''),
     (''HKG'', ''HK''),
     (''HND'', ''HN''),
     (''HRV'', ''HR''),
     (''HUN'', ''HU''),
     (''IDN'', ''ID''),
     (''IND'', ''IN''),
     (''IRL'', ''IE''),
     (''IRN'', ''IR''),
     (''IRQ'', ''IQ''),
     (''ISL'', ''IS''),
     (''ISR'', ''IL''),
     (''ITA'', ''IT''),
     (''JOR'', ''JO''),
     (''JPN'', ''JP''),
     (''KAZ'', ''KZ''),
     (''KGZ'', ''KG''),
     (''KHM'', ''KH''),
     (''KOR'', ''KR''),
     (''KSV'', ''XK''),
     (''KWT'', ''KW''),
     (''LBY'', ''LY''),
     (''LIE'', ''LI''),
     (''LKA'', ''LK''),
     (''LTU'', ''LT''),
     (''LUX'', ''LU''),
     (''LVA'', ''LV''),
     (''MAC'', ''MO''),
     (''MAR'', ''MA''),
     (''MDA'', ''MD''),
     (''MDG'', ''MG''),
     (''MEX'', ''MX''),
     (''MKD'', ''MK''),
     (''MLT'', ''MT''),
     (''MMR'', ''MM''),
     (''MNE'', ''ME''),
     (''MNG'', ''MN''),
     (''MOZ'', ''MZ''),
     (''MRT'', ''MR''),
     (''MUS'', ''MU''),
     (''MYS'', ''MY''),
     (''NGA'', ''NG''),
     (''NIC'', ''NI''),
     (''NLD'', ''NL''),
     (''NOR'', ''NO''),
     (''NPL'', ''NP''),
     (''NZL'', ''NZ''),
     (''PAK'', ''PK''),
     (''PAN'', ''PA''),
     (''PER'', ''PE''),
     (''PHL'', ''PH''),
     (''POL'', ''PL''),
     (''PRI'', ''PR''),
     (''PRK'', ''KP''),
     (''PRT'', ''PT''),
     (''PRY'', ''PY''),
     (''PSE'', ''PS''),
     (''QAT'', ''QA''),
     (''ROU'', ''RO''),
     (''RUS'', ''RU''),
     (''RWA'', ''RW''),
     (''SAU'', ''SA''),
     (''SEN'', ''SN''),
     (''SGP'', ''SG''),
     (''SLV'', ''SV''),
     (''SRB'', ''RS''),
     (''SUR'', ''SR''),
     (''SVK'', ''SK''),
     (''SVN'', ''SI''),
     (''SWE'', ''SE''),
     (''SYR'', ''SY''),
     (''THA'', ''TH''),
     (''TJK'', ''TJ''),
     (''TKM'', ''TM''),
     (''TTO'', ''TT''),
     (''TUN'', ''TN''),
     (''TUR'', ''TR''),
     (''TWN'', ''TW''),
     (''TZA'', ''TZ''),
     (''UGA'', ''UG''),
     (''UKR'', ''UA''),
     (''URY'', ''UY''),
     (''USA'', ''US''),
     (''UZB'', ''UZ''),
     (''VEN'', ''VE''),
     (''VNM'', ''VN''),
     (''ZAF'', ''ZA''),
     (''ZWE'', ''ZW'')]"

text \<open>
  The dict on the strings of a document: \<open>code in ALPHA3_TO_ALPHA2\<close> is
  \<open>alpha2_get code \<noteq> None\<close>, and \<open>ALPHA3_TO_ALPHA2[code]\<close> the value found.
\<close>

definition alpha2_get :: "ustring \<Rightarrow> ustring option" where
  "alpha2_get c = map_of (map (\<lambda>(k, v). (wide k, wide v)) ALPHA3_TO_ALPHA2) c"

text \<open>
  \<open>main\<close> reads \<open>medals.json\<close>, changes the decoded document in place and writes it back.
  The model takes the decoded document and returns the document written, the counter
  \<open>countries_updated\<close> and the warnings printed, or the exception raised (in which case
  nothing is written).
\<close>

datatype py_error = KeyError | TypeError | AttributeError

text \<open>\<open>d.get(k)\<close> on a value that is a dict.\<close>

definition dict_get :: "json \<Rightarrow> string \<Rightarrow> json option" where
  "dict_get d k = (case d of JObj kvs \<Rightarrow> map_of kvs k | _ \<Rightarrow> None)"

text \<open>
  The warning of line 160 is kept as the two values it formats, \<open>code\<close> and
  \<open>country.get('name')\<close>.
\<close>

type_synonym alpha2_warning = "json option \<times> json option"

text \<open>
  Lines 155 to 160 on one element of the loop: the element afterwards and whether it
  was updated. \<open>.get\<close> exists on a dict only; \<open>code in ALPHA3_TO_ALPHA2\<close> hashes \<open>code\<close>,
  which a list or a dict refuses.
\<close>

definition alpha2_country :: "json \<Rightarrow> py_error + json \<times> bool" where
  "alpha2_country country =
     (case country of
        JObj kvs \<Rightarrow>
          (case map_of kvs ''code'' of
             Some (JStr c) \<Rightarrow>
               (case alpha2_get c of
                  Some a \<Rightarrow> Inr (JObj (AList.update ''alpha2'' (JStr a) kvs), True)
                | None \<Rightarrow> Inr (country, False))
           | Some (JArr _) \<Rightarrow> Inl TypeError
           | Some (JObj _) \<Rightarrow> Inl TypeError
           | _ \<Rightarrow> Inr (country, False))
      | _ \<Rightarrow> Inl AttributeError)"

fun alpha2_loop :: "json list \<Rightarrow> py_error + json list \<times> nat \<times> alpha2_warning list" where
  "alpha2_loop [] = Inr ([], 0, [])"
| "alpha2_loop (country # rest) =
     (case alpha2_country country of
        Inl e \<Rightarrow> Inl e
      | Inr (country', updated) \<Rightarrow>
          (case alpha2_loop rest of
             Inl e \<Rightarrow> Inl e
           | Inr (rest', countries_updated, printed) \<Rightarrow>
               Inr (country' # rest',
                    (if updated then 1 else 0) + countries_updated,
                    (if updated then []
                     else [(dict_get country ''code'', dict_get country ''name'')]) @ printed)))"

text \<open>
  What \<open>for country in data["countries"]\<close> visits: the elements of a list, the keys of a
  dict, the characters of a string; nothing else can be iterated.
\<close>

definition iter_json :: "json \<Rightarrow> py_error + json list" where
  "iter_json v =
     (case v of
        JArr xs \<Rightarrow> Inr xs
      | JObj kvs \<Rightarrow> Inr (map (\<lambda>f. JStr (wide (fst f))) kvs)
      | JStr s \<Rightarrow> Inr (map (\<lambda>c. JStr [c]) s)
      | _ \<Rightarrow> Inl TypeError)"

definition add_alpha2_main :: "json \<Rightarrow> py_error + json \<times> nat \<times> alpha2_warning list" where
  "add_alpha2_main data =
     (case data of
        JObj doc \<Rightarrow>
          (case map_of doc ''countries'' of
             None \<Rightarrow> Inl KeyError
           | Some v \<Rightarrow>
               (case iter_json v of
                  Inl e \<Rightarrow> Inl e
                | Inr items \<Rightarrow>
                    (case alpha2_loop items of
                       Inl e \<Rightarrow> Inl e
                     | Inr (items', countries_updated, printed) \<Rightarrow>
                         Inr (JObj (AList.update ''countries''
                                      (case v of JArr _ \<Rightarrow> JArr items' | _ \<Rightarrow> v) doc),
                              countries_updated, printed))))
      | _ \<Rightarrow> Inl TypeError)"

text \<open>The list \<open>data["countries"]\<close> of a document, empty when there is none.\<close>

definition countries_of :: "json \<Rightarrow> json list" where
  "countries_of data =
     (case dict_get data ''countries'' of Some (JArr xs) \<Rightarrow> xs | _ \<Rightarrow> [])"

section \<open>Notions used to state the results\<close>

text \<open>
  \<open>wins data c e\<close>: the entry \<open>e\<close> is made of one record of \<open>data\<close> whose label resolves
  to the code \<open>c\<close>; that label is strictly shorter than the label of every earlier
  record of the same code and at most as long as the label of every later one.
\<close>

definition wins :: "data_dict \<Rightarrow> ustring \<Rightarrow> info \<Rightarrow> bool" where
  "wins data c e =
     (\<exists>pre post. data = pre @ (name e, medals e) # post
        \<and> fst (resolve_code (name e)) = c
        \<and> (\<forall>r\<in>set pre. fst (resolve_code (fst r)) = c \<longrightarrow> length (name e) < length (fst r))
        \<and> (\<forall>r\<in>set post. fst (resolve_code (fst r)) = c \<longrightarrow> length (name e) \<le> length (fst r)))"

text \<open>A cell without anchors, for the examples.\<close>

definition plain_cell :: "string \<Rightarrow> int option \<Rightarrow> cell" where
  "plain_cell txt n = \<lparr>cell_text = txt, links = [], as_int = n\<rparr>"

text \<open>The invariant of a medal tally: its total is the sum of its three counts.\<close>

definition tally_ok :: "medal_tally \<Rightarrow> bool" where
  "tally_ok m = (total m = gold m + silver m + bronze m)"

text \<open>
  In a parsed page the text of an anchor is part of the text of the cell that holds
  the anchor.
\<close>

definition links_in_text :: "cell \<Rightarrow> bool" where
  "links_in_text c = list_all (\<lambda>l. str_in (fst l) (cell_text c)) (links c)"

text \<open>
  The tables of an example run: one IMO row for France (10, 5, 2) and one IOI row for
  France (3, 1, 0), each after a header row; no IPhO table.
\<close>

definition imo_table_example :: "row list option" where
  "imo_table_example =
     Some [[plain_cell ''Country'' None],
           [plain_cell ''17'' (Some 17),
            \<lparr>cell_text = ''France'', links = [(''France'', ''France'')], as_int = None\<rparr>,
            plain_cell ''10'' (Some 10), plain_cell ''5'' (Some 5), plain_cell ''2'' (Some 2),
            plain_cell ''17'' (Some 17)]]"

definition ioi_table_example :: "row list option" where
  "ioi_table_example =
     Some [[plain_cell ''Country'' None],
           [plain_cell [] None,
            \<lparr>cell_text = ''France'', links = [(''France'', [])], as_int = None\<rparr>,
            plain_cell [] None,
            plain_cell ''3'' (Some 3), plain_cell ''1'' (Some 1), plain_cell ''0'' (Some 0),
            plain_cell ''4'' (Some 4)]]"

text \<open>
  Two rows for a historical entity: one whose country cell is the name Soviet Union
  itself, one whose country cell holds the name inside a longer text.
\<close>

definition soviet_row_example :: row where
  "soviet_row_example =
     [plain_cell ''9'' (Some 9),
      \<lparr>cell_text = ''Soviet Union'', links = [(''Soviet Union'', ''Soviet Union'')],
        as_int = None\<rparr>,
      plain_cell ''0'' (Some 0),
      plain_cell ''5'' (Some 5), plain_cell ''4'' (Some 4), plain_cell ''3'' (Some 3),
      plain_cell ''12'' (Some 12)]"

definition soviet_russia_row_example :: row where
  "soviet_russia_row_example =
     [plain_cell [] None,
      plain_cell ''Soviet Union (Russia)'' None,
      plain_cell [] None,
      plain_cell ''5'' (Some 5), plain_cell ''4'' (Some 4), plain_cell ''3'' (Some 3),
      plain_cell ''12'' (Some 12)]"

text \<open>
  A document as \<open>main\<close> of \<open>scrape_data.py\<close> writes it, with an entry for France and an
  entry under the pseudo-code of an unresolved label, and the same document after
  \<open>add_alpha2_codes.py\<close>.
\<close>

definition document_example :: json where
  "document_example =
     output_document
       [\<lparr>code = wide ''FRA'', country_name = Some ''France'',
          country_medals = \<lparr>IMO = tally 10 5 2, IOI = tally 3 1 0, IPhO = zero_tally,
                             combined = tally 13 6 2\<rparr>\<rparr>,
        \<lparr>code = wide ''N/A'', country_name = Some ''N/A'',
          country_medals = \<lparr>IMO = zero_tally, IOI = tally 0 0 1, IPhO = zero_tally,
                             combined = tally 0 0 1\<rparr>\<rparr>]
       ''2026-01-01T00:00:00''"

definition document_example_alpha2 :: json where
  "document_example_alpha2 =
     JObj [(''countries'',
            JArr [JObj [(''code'', JStr (wide ''FRA'')),
                        (''name'', JStr (wide ''France'')),
                        (''medals'',
                          JObj [(''IMO'', tally_json (tally 10 5 2)),
                                (''IOI'', tally_json (tally 3 1 0)),
                                (''IPhO'', tally_json zero_tally),
                                (''combined'', tally_json (tally 13 6 2))]),
                        (''alpha2'', JStr (wide ''FR''))],
                  JObj [(''code'', JStr (wide ''N/A'')),
                        (''name'', JStr (wide ''N/A'')),
                        (''medals'',
                          JObj [(''IMO'', tally_json zero_tally),
                                (''IOI'', tally_json (tally 0 0 1)),
                                (''IPhO'', tally_json zero_tally),
                                (''combined'', tally_json (tally 0 0 1))])]]),
           (''metadata'',
             JObj [(''imo_years'', JStr (wide ''1959-2025'')),
                   (''ioi_years'', JStr (wide ''1989-2025'')),
                   (''ipho_years'', JStr (wide ''1967-2025'')),
                   (''generated'', JStr (wide ''2026-01-01T00:00:00''))])]"

section \<open>Strings and codes\<close>

lemma wide_eq_iff [simp]: "wide a = wide b \<longleftrightarrow> a = b"
  by (simp add: wide_def inj_map_eq_map inj_of_char)

lemma wide_Nil [simp]: "wide [] = []"
  by (simp add: wide_def)

lemma wide_eq_Nil [simp]: "wide a = [] \<longleftrightarrow> a = []"
  by (simp add: wide_def)

lemma length_wide [simp]: "length (wide a) = length a"
  by (simp add: wide_def)

lemma upper_char_nonempty: "upper_char c \<noteq> []"
  by (simp add: upper_char_def Let_def)

lemma length_upper_char:
  "length (upper_char c) = (if c = CHR 0xDF then 2 else 1)"
  by (simp add: upper_char_def Let_def)

lemma upper_nonempty: "s \<noteq> [] \<Longrightarrow> upper s \<noteq> []"
  by (cases s) (simp_all add: upper_def upper_char_nonempty)

lemma length_upper:
  "length (upper s) = length s + length (filter (\<lambda>c. c = CHR 0xDF) s)"
  by (induction s) (simp_all add: upper_def length_upper_char)

section \<open>Evaluating the resolver on the labels used below\<close>

lemma resolve_France: "resolve_code ''France'' = (wide ''FRA'', [])"
  by code_simp

lemma resolve_China: "resolve_code ''China'' = (wide ''CHN'', [])"
  by code_simp

lemma resolve_Macao: "resolve_code ''Macao, China'' = (wide ''CHN'', [])"
  by code_simp

lemma resolve_empty: "resolve_code [] = (wide ''USA'', [])"
  by code_simp

section \<open>The aggregator\<close>

lemma code_aggregate_code [simp]: "code (aggregate_code a b c k) = k"
  by (simp add: aggregate_code_def Let_def)

lemma set_aggregate_data:
  "set (aggregate_data order imo ioi ipho) =
     aggregate_code (fst (normalize_country_names imo)) (fst (normalize_country_names ioi))
       (fst (normalize_country_names ipho)) ` set order"
  by (simp add: aggregate_data_def Let_def)

lemma codes_aggregate_data:
  "set (map code (aggregate_data order imo ioi ipho)) = set order"
  by (simp add: aggregate_data_def Let_def image_image)

lemma distinct_map_insort_key:
  "distinct (map g (insort_key f x xs)) = (g x \<notin> g ` set xs \<and> distinct (map g xs))"
  by (induction xs) (auto simp: set_insort_key)

lemma distinct_map_sort_key:
  "distinct (map g (sort_key f xs)) = distinct (map g xs)"
  by (induction xs) (simp_all add: distinct_map_insort_key)

lemma distinct_codes_aggregate_data:
  "distinct order \<Longrightarrow> distinct (map code (aggregate_data order imo ioi ipho))"
  by (simp add: aggregate_data_def Let_def distinct_map_sort_key comp_def)

lemma count_one:
  "distinct (map f xs) \<Longrightarrow> x \<in> set xs \<Longrightarrow> length (filter (\<lambda>y. f y = f x) xs) = 1"
proof (induction xs)
  case Nil
  then show ?case by simp
next
  case (Cons a xs)
  show ?case
  proof (cases "f a = f x")
    case True
    with Cons.prems have "filter (\<lambda>y. f y = f x) xs = []"
      by (auto simp: filter_empty_conv image_iff)
    with True show ?thesis by simp
  next
    case False
    with Cons show ?thesis by auto
  qed
qed

lemma sorted_aggregate_data:
  "sorted (map (\<lambda>x. - combined_total x) (aggregate_data order imo ioi ipho))"
  by (simp add: aggregate_data_def Let_def)

text \<open>
  A run used as an example below: France and China in the IMO table, France in the IOI
  table, no IPhO rows; the loop over \<open>all_codes\<close> visits FRA, then CHN.
\<close>

lemma aggregate_example:
  "aggregate_data [wide ''FRA'', wide ''CHN'']
     [(''France'', tally 10 5 2), (''China'', tally 20 3 1)] [(''France'', tally 3 1 0)] []
   = [\<lparr>code = wide ''CHN'', country_name = Some ''China'',
        country_medals = \<lparr>IMO = tally 20 3 1, IOI = zero_tally, IPhO = zero_tally,
                           combined = tally 20 3 1\<rparr>\<rparr>,
      \<lparr>code = wide ''FRA'', country_name = Some ''France'',
        country_medals = \<lparr>IMO = tally 10 5 2, IOI = tally 3 1 0, IPhO = zero_tally,
                           combined = tally 13 6 2\<rparr>\<rparr>]"
  by (simp add: aggregate_data_def normalize_country_names_def normalize_item_def
      resolve_France resolve_China combined_total_def aggregate_code_def get_medals_def
      get_name_def py_or_def tally_def zero_tally_def Let_def)

section \<open>The normalizer\<close>

lemma normalize_snoc:
  "normalize_country_names (xs @ [x]) = normalize_item x (normalize_country_names xs)"
  by (simp add: normalize_country_names_def)

lemma fst_normalize_item:
  "fst (normalize_item (cn, m) st) =
     (case map_of (fst st) (fst (resolve_code cn)) of
        None \<Rightarrow> AList.update (fst (resolve_code cn)) \<lparr>name = cn, medals = m\<rparr> (fst st)
      | Some existing \<Rightarrow>
          if length cn < length (name existing)
          then AList.update (fst (resolve_code cn)) \<lparr>name = cn, medals = m\<rparr> (fst st)
          else fst st)"
  by (simp add: normalize_item_def split: prod.splits option.splits)

lemma map_of_normalize_item:
  "map_of (fst (normalize_item (cn, m) st)) c =
     (if fst (resolve_code cn) = c
      then (case map_of (fst st) c of
              None \<Rightarrow> Some \<lparr>name = cn, medals = m\<rparr>
            | Some existing \<Rightarrow>
                if length cn < length (name existing)
                then Some \<lparr>name = cn, medals = m\<rparr> else Some existing)
      else map_of (fst st) c)"
  by (simp add: fst_normalize_item AList.update_conv' split: option.splits)

lemma wins_snoc_keep:
  assumes "wins xs c e" and "fst (resolve_code cn) = c \<longrightarrow> length (name e) \<le> length cn"
  shows "wins (xs @ [(cn, m)]) c e"
proof -
  from assms(1) obtain pre post where p: "xs = pre @ (name e, medals e) # post"
    "fst (resolve_code (name e)) = c"
    "\<forall>r\<in>set pre. fst (resolve_code (fst r)) = c \<longrightarrow> length (name e) < length (fst r)"
    "\<forall>r\<in>set post. fst (resolve_code (fst r)) = c \<longrightarrow> length (name e) \<le> length (fst r)"
    unfolding wins_def by blast
  have "xs @ [(cn, m)] = pre @ (name e, medals e) # (post @ [(cn, m)])"
    using p(1) by simp
  moreover have "\<forall>r\<in>set (post @ [(cn, m)]).
      fst (resolve_code (fst r)) = c \<longrightarrow> length (name e) \<le> length (fst r)"
    using p(4) assms(2) by auto
  ultimately show ?thesis
    unfolding wins_def using p(2,3) by blast
qed

lemma wins_snoc_new:
  assumes "fst (resolve_code cn) = c"
    and "\<forall>r\<in>set xs. fst (resolve_code (fst r)) = c \<longrightarrow> length cn < length (fst r)"
  shows "wins (xs @ [(cn, m)]) c \<lparr>name = cn, medals = m\<rparr>"
  unfolding wins_def
  by (rule exI [of _ xs], rule exI [of _ "[]"]) (use assms in simp)

lemma wins_bound:
  assumes "wins xs c e" and "r \<in> set xs" and "fst (resolve_code (fst r)) = c"
  shows "length (name e) \<le> length (fst r)"
proof -
  from assms(1) obtain pre post where p: "xs = pre @ (name e, medals e) # post"
    "\<forall>r\<in>set pre. fst (resolve_code (fst r)) = c \<longrightarrow> length (name e) < length (fst r)"
    "\<forall>r\<in>set post. fst (resolve_code (fst r)) = c \<longrightarrow> length (name e) \<le> length (fst r)"
    unfolding wins_def by blast
  from assms(2) p(1) consider "r \<in> set pre" | "r = (name e, medals e)" | "r \<in> set post"
    by auto
  then show ?thesis
  proof cases
    case 1 with p(2) assms(3) show ?thesis by fastforce
  next
    case 2 then show ?thesis by simp
  next
    case 3 with p(3) assms(3) show ?thesis by fastforce
  qed
qed

lemma normalize_inv:
  "(map_of (fst (normalize_country_names xs)) c = None
      \<longrightarrow> (\<forall>r\<in>set xs. fst (resolve_code (fst r)) \<noteq> c))
   \<and> (\<forall>e. map_of (fst (normalize_country_names xs)) c = Some e \<longrightarrow> wins xs c e)"
proof (induction xs rule: rev_induct)
  case Nil
  show ?case by (simp add: normalize_country_names_def)
next
  case (snoc x xs)
  obtain cn m where x: "x = (cn, m)" by (cases x)
  let ?nz = "fst (normalize_country_names xs)"
  let ?nz' = "fst (normalize_country_names (xs @ [x]))"
  have nz': "map_of ?nz' c =
     (if fst (resolve_code cn) = c
      then (case map_of ?nz c of
              None \<Rightarrow> Some \<lparr>name = cn, medals = m\<rparr>
            | Some existing \<Rightarrow>
                if length cn < length (name existing)
                then Some \<lparr>name = cn, medals = m\<rparr> else Some existing)
      else map_of ?nz c)"
    by (simp add: normalize_snoc x map_of_normalize_item)
  show ?case
  proof (cases "fst (resolve_code cn) = c")
    case False
    with nz' have eq: "map_of ?nz' c = map_of ?nz c" by simp
    show ?thesis
      using eq snoc.IH False unfolding x by (auto intro: wins_snoc_keep)
  next
    case True
    show ?thesis
    proof (cases "map_of ?nz c")
      case None
      with nz' True have eq: "map_of ?nz' c = Some \<lparr>name = cn, medals = m\<rparr>" by simp
      from None snoc.IH have "\<forall>r\<in>set xs. fst (resolve_code (fst r)) \<noteq> c" by blast
      then have "wins (xs @ [(cn, m)]) c \<lparr>name = cn, medals = m\<rparr>"
        using True by (intro wins_snoc_new) auto
      then show ?thesis using eq unfolding x by simp
    next
      case (Some existing)
      with snoc.IH have w: "wins xs c existing" by blast
      show ?thesis
      proof (cases "length cn < length (name existing)")
        case short: True
        with nz' \<open>fst (resolve_code cn) = c\<close> Some
        have eq: "map_of ?nz' c = Some \<lparr>name = cn, medals = m\<rparr>" by simp
        have "\<forall>r\<in>set xs. fst (resolve_code (fst r)) = c \<longrightarrow> length cn < length (fst r)"
          using wins_bound [OF w] short by fastforce
        then have "wins (xs @ [(cn, m)]) c \<lparr>name = cn, medals = m\<rparr>"
          using True by (intro wins_snoc_new) auto
        then show ?thesis using eq unfolding x by simp
      next
        case long: False
        with nz' \<open>fst (resolve_code cn) = c\<close> Some
        have eq: "map_of ?nz' c = Some existing" by simp
        have "wins (xs @ [(cn, m)]) c existing"
          using w long by (intro wins_snoc_keep) auto
        then show ?thesis using eq unfolding x by simp
      qed
    qed
  qed
qed

lemma normalize_China_Macao:
  "normalize_country_names [(''China'', tally 5 4 3), (''Macao, China'', tally 0 1 2)]
     = ([(wide ''CHN'', \<lparr>name = ''China'', medals = tally 5 4 3\<rparr>)], [])"
  by (simp add: normalize_country_names_def normalize_item_def resolve_China resolve_Macao)

lemma normalize_Macao_China:
  "normalize_country_names [(''Macao, China'', tally 0 1 2), (''China'', tally 5 4 3)]
     = ([(wide ''CHN'', \<lparr>name = ''China'', medals = tally 5 4 3\<rparr>)], [])"
  by (simp add: normalize_country_names_def normalize_item_def resolve_China resolve_Macao)

section \<open>The resolver\<close>

lemma codes_nonempty: "list_all (\<lambda>e. snd e \<noteq> []) COUNTRY_CODE_MAP"
  by code_simp

lemma names_long: "list_all (\<lambda>e. 4 \<le> length (fst e)) COUNTRY_CODE_MAP"
  by code_simp

lemma no_slash: "list_all (\<lambda>e. CHR ''/'' \<notin> set (fst e)) COUNTRY_CODE_MAP"
  by code_simp

lemma no_hyphen: "list_all (\<lambda>e. CHR ''-'' \<notin> set (fst e)) COUNTRY_CODE_MAP"
  by code_simp

lemma partial_match_empty: "partial_match [] e"
  by (simp add: partial_match_def str_in_def lower_def)

lemma find_empty_label: "find (partial_match []) COUNTRY_CODE_MAP \<noteq> None"
  by (simp add: find_None_iff partial_match_empty COUNTRY_CODE_MAP_def)

lemma lower_char_small: "of_char c < (65::nat) \<Longrightarrow> lower_char c = c"
  by (simp add: lower_char_def Let_def)

lemma lower_char_to_small:
  assumes "lower_char x = c" and "of_char c < (97::nat)"
  shows "x = c"
proof (rule ccontr)
  assume ne: "x \<noteq> c"
  let ?n = "of_char x :: nat"
  from ne assms(1) have r: "(65 \<le> ?n \<and> ?n \<le> 90) \<or> (192 \<le> ?n \<and> ?n \<le> 222 \<and> ?n \<noteq> 215)"
    and c: "c = char_of (?n + 32)"
    by (auto simp: lower_char_def Let_def split: if_splits)
  from c have "of_char c = (?n + 32) mod 256" by simp
  with r have "(of_char c :: nat) = ?n + 32" by auto
  with r assms(2) show False by auto
qed

lemma no_partial_match:
  assumes c: "c \<in> set label" and small: "of_char c < (65::nat)"
    and short: "length label < 4"
    and absent: "list_all (\<lambda>e. c \<notin> set (fst e)) COUNTRY_CODE_MAP"
  shows "find (partial_match label) COUNTRY_CODE_MAP = None"
proof -
  have "\<not> partial_match label e" if e: "e \<in> set COUNTRY_CODE_MAP" for e
  proof
    assume "partial_match label e"
    then consider "sublist (lower (fst e)) (lower label)" | "sublist (lower label) (lower (fst e))"
      by (auto simp: partial_match_def str_in_def)
    then show False
    proof cases
      case 1
      then have "length (lower (fst e)) \<le> length (lower label)" by (rule sublist_length_le)
      moreover from names_long e have "4 \<le> length (fst e)" by (simp add: list_all_iff)
      ultimately show False using short by (simp add: lower_def)
    next
      case 2
      then have "set (lower label) \<subseteq> set (lower (fst e))" by (rule set_mono_sublist)
      moreover from c small have "c \<in> set (lower label)"
        by (force simp: lower_def image_iff lower_char_small)
      ultimately obtain x where x: "x \<in> set (fst e)" "lower_char x = c"
        by (auto simp: lower_def)
      from small have "of_char c < (97::nat)" by simp
      with x(2) have "x = c" by (rule lower_char_to_small)
      with x(1) absent e show False by (simp add: list_all_iff)
    qed
  qed
  then show ?thesis by (simp add: find_None_iff)
qed

lemma resolve_code_cases:
  "resolve_code label =
     (case map_of COUNTRY_CODE_MAP label of
        Some c \<Rightarrow> (wide c, [])
      | None \<Rightarrow>
          (case find (partial_match label) COUNTRY_CODE_MAP of
             Some (n, c) \<Rightarrow> (wide c, [])
           | None \<Rightarrow> (upper (take 3 label), [warning label])))"
proof (cases "map_of COUNTRY_CODE_MAP label")
  case (Some c)
  then have "(label, c) \<in> set COUNTRY_CODE_MAP" by (rule map_of_SomeD)
  with codes_nonempty have "c \<noteq> []" by (auto simp: list_all_iff)
  with Some show ?thesis by (simp add: resolve_code_def not_code_def)
next
  case None
  show ?thesis
  proof (cases "find (partial_match label) COUNTRY_CODE_MAP")
    case n: None
    with None show ?thesis by (simp add: resolve_code_def not_code_def)
  next
    case (Some e)
    obtain n c where e: "e = (n, c)" by (cases e)
    from Some have "e \<in> set COUNTRY_CODE_MAP" by (auto simp: find_Some_iff)
    with codes_nonempty e have "c \<noteq> []" by (auto simp: list_all_iff)
    with None Some e show ?thesis by (simp add: resolve_code_def not_code_def)
  qed
qed

lemma map_of_na: "map_of COUNTRY_CODE_MAP ''n/a'' = None"
  by code_simp

lemma map_of_sharp_s: "map_of COUNTRY_CODE_MAP [CHR 0xDF, CHR ''/'', CHR ''a''] = None"
  by code_simp

lemma map_of_x_hyphen: "map_of COUNTRY_CODE_MAP ''x-'' = None"
  by code_simp

lemma upper_na: "upper ''n/a'' = wide ''N/A''"
  by code_simp

lemma upper_sharp_s: "upper [CHR 0xDF, CHR ''/'', CHR ''a''] = wide ''SS/A''"
  by code_simp

lemma upper_x_hyphen: "upper ''x-'' = wide ''X-''"
  by code_simp

lemma find_na: "find (partial_match ''n/a'') COUNTRY_CODE_MAP = None"
  by (rule no_partial_match [where c = "CHR ''/''"]) (simp_all add: no_slash)

lemma find_sharp_s: "find (partial_match [CHR 0xDF, CHR ''/'', CHR ''a'']) COUNTRY_CODE_MAP = None"
  by (rule no_partial_match [where c = "CHR ''/''"]) (simp_all add: no_slash)

lemma find_x_hyphen: "find (partial_match ''x-'') COUNTRY_CODE_MAP = None"
  by (rule no_partial_match [where c = "CHR ''-''"]) (simp_all add: no_hyphen)

section \<open>The parsers and the tallies\<close>

lemma set_update_subset: "set (AList.update k v al) \<subseteq> insert (k, v) (set al)"
  by (induction al) auto

lemma tally_ok_tally [simp]: "tally_ok (tally g s b)"
  by (simp add: tally_ok_def tally_def)

lemma tally_ok_zero [simp]: "tally_ok zero_tally"
  by (simp add: tally_ok_def zero_tally_def)

lemma store_row_ok:
  assumes "\<forall>p\<in>set data. tally_ok (snd p)"
  shows "\<forall>p\<in>set (store_row cn cells i j k data). tally_ok (snd p)"
  using assms set_update_subset [of cn _ data]
  by (fastforce simp: store_row_def split: option.splits)

lemma imo_row_ok:
  "\<forall>p\<in>set data. tally_ok (snd p) \<Longrightarrow> \<forall>p\<in>set (imo_row cells data). tally_ok (snd p)"
  using store_row_ok by (simp add: imo_row_def Let_def)

lemma ioi_row_ok:
  "\<forall>p\<in>set data. tally_ok (snd p) \<Longrightarrow> \<forall>p\<in>set (ioi_row cells data). tally_ok (snd p)"
  using store_row_ok by (simp add: ioi_row_def Let_def)

lemma ipho_row_ok:
  "\<forall>p\<in>set data. tally_ok (snd p) \<Longrightarrow> \<forall>p\<in>set (ipho_row cells data). tally_ok (snd p)"
  using store_row_ok by (simp add: ipho_row_def Let_def)

lemma fold_rows_ok:
  assumes step: "\<And>cells data. \<forall>p\<in>set data. tally_ok (snd p)
      \<Longrightarrow> \<forall>p\<in>set (f cells data). tally_ok (snd p)"
  shows "\<forall>p\<in>set data. tally_ok (snd p) \<Longrightarrow> \<forall>p\<in>set (fold f rows data). tally_ok (snd p)"
proof (induction rows arbitrary: data)
  case Nil
  then show ?case by simp
next
  case (Cons r rows)
  from Cons.prems have "\<forall>p\<in>set (f r data). tally_ok (snd p)" by (rule step)
  then show ?case using Cons.IH by simp
qed

lemma parse_imo_ok: "p \<in> set (parse_imo_data t) \<Longrightarrow> tally_ok (snd p)"
  using fold_rows_ok [of imo_row "[]"] imo_row_ok
  by (auto simp: parse_imo_data_def split: option.splits)

lemma parse_ioi_ok: "p \<in> set (parse_ioi_data t) \<Longrightarrow> tally_ok (snd p)"
  using fold_rows_ok [of ioi_row "[]"] ioi_row_ok
  by (auto simp: parse_ioi_data_def split: option.splits)

lemma parse_ipho_ok: "p \<in> set (parse_ipho_data t) \<Longrightarrow> tally_ok (snd p)"
  using fold_rows_ok [of ipho_row "[]"] ipho_row_ok
  by (auto simp: parse_ipho_data_def split: option.splits)

lemma wins_mem: "wins data c e \<Longrightarrow> (name e, medals e) \<in> set data"
  by (auto simp: wins_def)

lemma get_medals_normalized_ok:
  assumes "\<forall>p\<in>set data. tally_ok (snd p)"
  shows "tally_ok (get_medals (map_of (fst (normalize_country_names data)) c))"
proof (cases "map_of (fst (normalize_country_names data)) c")
  case None
  then show ?thesis by (simp add: get_medals_def)
next
  case (Some e)
  with normalize_inv [of data c] have "wins data c e" by blast
  then have "(name e, medals e) \<in> set data" by (rule wins_mem)
  with assms have "tally_ok (medals e)" by fastforce
  with Some show ?thesis by (simp add: get_medals_def)
qed

lemma aggregate_code_sums:
  "gold (combined (country_medals (aggregate_code a b c k)))
     = gold (IMO (country_medals (aggregate_code a b c k)))
       + gold (IOI (country_medals (aggregate_code a b c k)))
       + gold (IPhO (country_medals (aggregate_code a b c k)))"
  "silver (combined (country_medals (aggregate_code a b c k)))
     = silver (IMO (country_medals (aggregate_code a b c k)))
       + silver (IOI (country_medals (aggregate_code a b c k)))
       + silver (IPhO (country_medals (aggregate_code a b c k)))"
  "bronze (combined (country_medals (aggregate_code a b c k)))
     = bronze (IMO (country_medals (aggregate_code a b c k)))
       + bronze (IOI (country_medals (aggregate_code a b c k)))
       + bronze (IPhO (country_medals (aggregate_code a b c k)))"
  "total (combined (country_medals (aggregate_code a b c k)))
     = total (IMO (country_medals (aggregate_code a b c k)))
       + total (IOI (country_medals (aggregate_code a b c k)))
       + total (IPhO (country_medals (aggregate_code a b c k)))"
  by (simp_all add: aggregate_code_def Let_def)

lemma aggregate_code_sources:
  "IMO (country_medals (aggregate_code a b c k)) = get_medals (map_of a k)"
  "IOI (country_medals (aggregate_code a b c k)) = get_medals (map_of b k)"
  "IPhO (country_medals (aggregate_code a b c k)) = get_medals (map_of c k)"
  by (simp_all add: aggregate_code_def Let_def)

lemma historical_in_France: "historical_in ''France'' = None"
  by code_simp

lemma parse_imo_example: "parse_imo_data imo_table_example = [(''France'', tally 10 5 2)]"
  by (simp add: parse_imo_data_def imo_table_example_def imo_row_def imo_country_name_def
      historical_in_France store_row_def int_at_def plain_cell_def)

lemma parse_ioi_example: "parse_ioi_data ioi_table_example = [(''France'', tally 3 1 0)]"
  by (simp add: parse_ioi_data_def ioi_table_example_def ioi_row_def link_country_name_def
      HISTORICAL_COUNTRIES_def store_row_def int_at_def plain_cell_def)

lemma parse_ipho_none: "parse_ipho_data None = []"
  by (simp add: parse_ipho_data_def)

lemma aggregate_tables_example:
  "aggregate_data [wide ''FRA''] (parse_imo_data imo_table_example)
       (parse_ioi_data ioi_table_example) (parse_ipho_data None)
     = [\<lparr>code = wide ''FRA'', country_name = Some ''France'',
          country_medals = \<lparr>IMO = tally 10 5 2, IOI = tally 3 1 0, IPhO = zero_tally,
                             combined = tally 13 6 2\<rparr>\<rparr>]"
  unfolding parse_imo_example parse_ioi_example parse_ipho_none
  by (simp add: aggregate_data_def normalize_country_names_def normalize_item_def
      resolve_France aggregate_code_def get_medals_def
      get_name_def py_or_def tally_def zero_tally_def Let_def)

lemma normalize_example_imo:
  "normalize_country_names [(''France'', tally 10 5 2), (''China'', tally 20 3 1)]
   = ([(wide ''FRA'', \<lparr>name = ''France'', medals = tally 10 5 2\<rparr>),
       (wide ''CHN'', \<lparr>name = ''China'', medals = tally 20 3 1\<rparr>)], [])"
  by (simp add: normalize_country_names_def normalize_item_def resolve_France resolve_China)

lemma normalize_example_ioi:
  "normalize_country_names [(''France'', tally 3 1 0)]
   = ([(wide ''FRA'', \<lparr>name = ''France'', medals = tally 3 1 0\<rparr>)], [])"
  by (simp add: normalize_country_names_def normalize_item_def resolve_France)

lemma normalize_nil: "normalize_country_names [] = ([], [])"
  by (simp add: normalize_country_names_def)

lemma iterates_example:
  "iterates [wide ''FRA'', wide ''CHN'']
     (all_codes [(''France'', tally 10 5 2), (''China'', tally 20 3 1)] [(''France'', tally 3 1 0)] [])"
  unfolding all_codes_def normalize_example_imo normalize_example_ioi normalize_nil
  by (auto simp: iterates_def)

section \<open>The historical filter\<close>

lemma historical_in_mem: "historical_in t = Some h \<Longrightarrow> h \<in> set HISTORICAL_COUNTRIES"
  by (auto simp: historical_in_def find_Some_iff)

lemma historical_in_None:
  "historical_in t = None \<Longrightarrow> h \<in> set HISTORICAL_COUNTRIES \<Longrightarrow> \<not> str_in h t"
proof
  assume n: "historical_in t = None" and h: "h \<in> set HISTORICAL_COUNTRIES" and s: "str_in h t"
  from s have "sublist (map lower_char h) (map lower_char t)"
    unfolding str_in_def by (rule map_mono_sublist)
  then have "str_in (lower h) (lower t)" by (simp add: str_in_def lower_def)
  with n h show False by (auto simp: historical_in_def find_None_iff)
qed

lemma imo_row_historical:
  "historical_in (cell_text (cells ! 1)) \<noteq> None \<Longrightarrow> imo_row cells data = data"
  by (auto simp: imo_row_def Let_def dest: historical_in_mem split: option.splits)

lemma ioi_row_historical:
  "link_country_name (cells ! 1) \<in> set HISTORICAL_COUNTRIES \<Longrightarrow> ioi_row cells data = data"
  by (simp add: ioi_row_def Let_def)

lemma ipho_row_historical:
  "link_country_name (cells ! 1) \<in> set HISTORICAL_COUNTRIES \<Longrightarrow> ipho_row cells data = data"
  by (simp add: ipho_row_def Let_def)

lemma keys_store_row:
  "k \<in> fst ` set (store_row cn cells i j l data) \<Longrightarrow> k \<in> fst ` set data \<or> k = cn"
  by (auto simp: store_row_def AList.dom_update split: option.splits)

lemma keys_ioi_row:
  "k \<in> fst ` set (ioi_row cells data) \<Longrightarrow>
   k \<in> fst ` set data \<or> k \<notin> set HISTORICAL_COUNTRIES"
  using keys_store_row [of k "link_country_name (cells ! 1)" cells 3 4 5 data]
  by (auto simp: ioi_row_def Let_def split: if_splits)

lemma keys_ipho_row:
  "k \<in> fst ` set (ipho_row cells data) \<Longrightarrow>
   k \<in> fst ` set data \<or> k \<notin> set HISTORICAL_COUNTRIES"
  using keys_store_row [of k "link_country_name (cells ! 1)" cells 4 5 6 data]
  by (auto simp: ipho_row_def Let_def split: if_splits)

lemma fold_pick:
  "fold (\<lambda>(txt, title) acc. if P txt title then txt else acc) ls a \<in> insert a (fst ` set ls)"
proof (induction ls arbitrary: a)
  case Nil
  show ?case by simp
next
  case (Cons l ls)
  obtain tx title where l: "l = (tx, title)" by (cases l)
  from Cons [of "if P tx title then tx else a"] show ?case
    by (auto simp: l split: if_splits)
qed

lemma imo_country_name_in_text:
  assumes "links_in_text c"
  shows "str_in (imo_country_name c) (cell_text c)"
proof (cases "links c = []")
  case True
  then show ?thesis by (simp add: imo_country_name_def str_in_def)
next
  case False
  let ?n = "fold (\<lambda>(txt, title) country_name.
                   if txt \<noteq> [] \<and> length txt > 1 \<and> (txt = title \<or> title = [])
                   then txt else country_name) (links c) []"
  have "?n \<in> insert [] (fst ` set (links c))"
    by (rule fold_pick)
  then have "str_in ?n (cell_text c)"
    using assms by (auto simp: links_in_text_def list_all_iff str_in_def)
  with False show ?thesis by (simp add: imo_country_name_def)
qed

lemma keys_imo_row:
  assumes "6 \<le> length cells \<longrightarrow> links_in_text (cells ! 1)"
    and "k \<in> fst ` set (imo_row cells data)"
  shows "k \<in> fst ` set data \<or> k \<notin> set HISTORICAL_COUNTRIES"
proof (rule ccontr)
  assume "\<not> (k \<in> fst ` set data \<or> k \<notin> set HISTORICAL_COUNTRIES)"
  then have nk: "k \<notin> fst ` set data" and h: "k \<in> set HISTORICAL_COUNTRIES" by auto
  from nk assms(2) have ne: "imo_row cells data \<noteq> data" by auto
  with imo_row_historical have n: "historical_in (cell_text (cells ! 1)) = None" by blast
  from ne have len: "6 \<le> length cells"
    by (auto simp: imo_row_def split: if_splits)
  from ne n have "imo_row cells data = store_row (imo_country_name (cells ! 1)) cells 2 3 4 data"
    by (auto simp: imo_row_def Let_def split: if_splits)
  with assms(2) nk have "k = imo_country_name (cells ! 1)"
    using keys_store_row by metis
  with assms(1) len have "str_in k (cell_text (cells ! 1))"
    by (simp add: imo_country_name_in_text)
  with historical_in_None [OF n h] show False by simp
qed

lemma fold_keys:
  assumes "\<And>cells data. cells \<in> set rows \<Longrightarrow> k \<in> fst ` set (f cells data)
      \<Longrightarrow> k \<in> fst ` set data \<or> P"
    and "k \<in> fst ` set (fold f rows data)"
  shows "k \<in> fst ` set data \<or> P"
  using assms
proof (induction rows arbitrary: data)
  case Nil
  then show ?case by simp
next
  case (Cons r rows)
  from Cons.prems(2) have "k \<in> fst ` set (fold f rows (f r data))" by simp
  with Cons.IH [of "f r data"] Cons.prems(1) have "k \<in> fst ` set (f r data) \<or> P"
    by (metis list.set_intros(2))
  with Cons.prems(1) [of r data] show ?case by auto
qed

lemma parse_ioi_keys:
  "h \<in> set HISTORICAL_COUNTRIES \<Longrightarrow> h \<notin> fst ` set (parse_ioi_data t)"
proof
  assume h: "h \<in> set HISTORICAL_COUNTRIES" and k: "h \<in> fst ` set (parse_ioi_data t)"
  from k obtain rows where "h \<in> fst ` set (fold ioi_row rows [])"
    by (auto simp: parse_ioi_data_def split: option.splits)
  then have "h \<in> fst ` set ([] :: data_dict) \<or> h \<notin> set HISTORICAL_COUNTRIES"
    by (rule fold_keys [rotated]) (rule keys_ioi_row)
  with h show False by simp
qed

lemma parse_ipho_keys:
  "h \<in> set HISTORICAL_COUNTRIES \<Longrightarrow> h \<notin> fst ` set (parse_ipho_data t)"
proof
  assume h: "h \<in> set HISTORICAL_COUNTRIES" and k: "h \<in> fst ` set (parse_ipho_data t)"
  from k obtain rows where "h \<in> fst ` set (fold ipho_row rows [])"
    by (auto simp: parse_ipho_data_def split: option.splits)
  then have "h \<in> fst ` set ([] :: data_dict) \<or> h \<notin> set HISTORICAL_COUNTRIES"
    by (rule fold_keys [rotated]) (rule keys_ipho_row)
  with h show False by simp
qed

lemma parse_imo_keys:
  assumes h: "h \<in> set HISTORICAL_COUNTRIES"
    and dom: "list_all (\<lambda>cells. 6 \<le> length cells \<longrightarrow> links_in_text (cells ! 1)) (tl rows)"
  shows "h \<notin> fst ` set (parse_imo_data (Some rows))"
proof
  assume "h \<in> fst ` set (parse_imo_data (Some rows))"
  then have "h \<in> fst ` set (fold imo_row (tl rows) [])"
    by (simp add: parse_imo_data_def)
  then have "h \<in> fst ` set ([] :: data_dict) \<or> h \<notin> set HISTORICAL_COUNTRIES"
  proof (rule fold_keys [rotated])
    fix cells data
    assume c: "cells \<in> set (tl rows)" and k: "h \<in> fst ` set (imo_row cells data)"
    from dom c have "6 \<le> length cells \<longrightarrow> links_in_text (cells ! 1)"
      by (simp add: list_all_iff)
    then show "h \<in> fst ` set data \<or> h \<notin> set HISTORICAL_COUNTRIES"
      using k by (rule keys_imo_row)
  qed
  with h show False by simp
qed

lemma resolve_Soviet_Russia: "resolve_code ''Soviet Union (Russia)'' = (wide ''RUS'', [])"
  by code_simp

lemma historical_in_Soviet_Russia:
  "historical_in ''Soviet Union (Russia)'' = Some ''Soviet Union''"
  by code_simp

lemma historical_in_Soviet: "historical_in ''Soviet Union'' = Some ''Soviet Union''"
  by code_simp

lemma Soviet_historical: "''Soviet Union'' \<in> set HISTORICAL_COUNTRIES"
  by (simp add: HISTORICAL_COUNTRIES_def)

lemma Soviet_Russia_not_historical: "''Soviet Union (Russia)'' \<notin> set HISTORICAL_COUNTRIES"
  by (simp add: HISTORICAL_COUNTRIES_def)

lemma ioi_row_Soviet_Russia:
  "ioi_row soviet_russia_row_example [] = [(''Soviet Union (Russia)'', tally 5 4 3)]"
  by (simp add: ioi_row_def soviet_russia_row_example_def link_country_name_def
      Soviet_Russia_not_historical store_row_def int_at_def plain_cell_def)

lemma parse_ioi_Soviet_Russia:
  "parse_ioi_data (Some [[plain_cell ''Country'' None], soviet_russia_row_example])
     = [(''Soviet Union (Russia)'', tally 5 4 3)]"
  by (simp add: parse_ioi_data_def ioi_row_Soviet_Russia)

section \<open>The alpha-2 post-process\<close>

lemma alpha2_country_obj:
  "alpha2_country c = Inr (c', u) \<Longrightarrow> \<exists>kvs. c = JObj kvs"
  by (cases c) (simp_all add: alpha2_country_def)

lemma alpha2_country_JObj:
  "alpha2_country (JObj kvs) =
     (case map_of kvs ''code'' of
        Some (JStr s) \<Rightarrow>
          (case alpha2_get s of
             Some a \<Rightarrow> Inr (JObj (AList.update ''alpha2'' (JStr a) kvs), True)
           | None \<Rightarrow> Inr (JObj kvs, False))
      | Some (JArr _) \<Rightarrow> Inl TypeError
      | Some (JObj _) \<Rightarrow> Inl TypeError
      | _ \<Rightarrow> Inr (JObj kvs, False))"
  by (simp add: alpha2_country_def)

lemma alpha2_country_False: "alpha2_country c = Inr (c', False) \<Longrightarrow> c' = c"
proof -
  assume a: "alpha2_country c = Inr (c', False)"
  then obtain kvs where c: "c = JObj kvs" by (blast dest: alpha2_country_obj)
  from a show ?thesis unfolding c alpha2_country_JObj
    by (auto split: option.splits json.splits)
qed

lemma alpha2_country_True:
  "alpha2_country c = Inr (c', True) \<Longrightarrow>
   \<exists>kvs s a. c = JObj kvs \<and> map_of kvs ''code'' = Some (JStr s)
     \<and> alpha2_get s = Some a
     \<and> c' = JObj (AList.update ''alpha2'' (JStr a) kvs)"
proof -
  assume a: "alpha2_country c = Inr (c', True)"
  then obtain kvs where c: "c = JObj kvs" by (blast dest: alpha2_country_obj)
  from a show ?thesis unfolding c alpha2_country_JObj
    by (auto split: option.splits json.splits)
qed

lemma alpha2_country_idem:
  assumes "alpha2_country c = Inr (c', u)"
  shows "alpha2_country c' = Inr (c', u)"
proof (cases u)
  case False
  with assms have "alpha2_country c = Inr (c', False)" by simp
  from alpha2_country_False [OF this] assms show ?thesis by simp
next
  case True
  with assms have "alpha2_country c = Inr (c', True)" by simp
  from alpha2_country_True [OF this] obtain kvs s a where
    k: "c = JObj kvs" "map_of kvs ''code'' = Some (JStr s)"
       "alpha2_get s = Some a"
       "c' = JObj (AList.update ''alpha2'' (JStr a) kvs)"
    by blast
  have "map_of (AList.update ''alpha2'' (JStr a) kvs) ''code'' = Some (JStr s)"
    using k(2) by (simp add: AList.update_conv')
  then show ?thesis
    using k(3) True unfolding k(4) alpha2_country_JObj by simp
qed

lemma alpha2_country_get:
  assumes "alpha2_country c = Inr (c', u)"
  shows "(\<forall>k. k \<noteq> ''alpha2'' \<longrightarrow> dict_get c' k = dict_get c k)
    \<and> dict_get c' ''alpha2'' =
        (case dict_get c ''code'' of
           Some (JStr s) \<Rightarrow>
             (case alpha2_get s of
                Some a \<Rightarrow> Some (JStr a)
              | None \<Rightarrow> dict_get c ''alpha2'')
         | _ \<Rightarrow> dict_get c ''alpha2'')"
proof (cases u)
  case True
  with assms have "alpha2_country c = Inr (c', True)" by simp
  from alpha2_country_True [OF this] obtain kvs s a where
    k: "c = JObj kvs" "map_of kvs ''code'' = Some (JStr s)"
       "alpha2_get s = Some a"
       "c' = JObj (AList.update ''alpha2'' (JStr a) kvs)"
    by blast
  then show ?thesis by (simp add: dict_get_def AList.update_conv')
next
  case False
  with assms have "alpha2_country c = Inr (c', False)" by simp
  from alpha2_country_False [OF this] have e: "c' = c" .
  from assms obtain kvs where c: "c = JObj kvs" by (blast dest: alpha2_country_obj)
  from assms False show ?thesis unfolding e c alpha2_country_JObj
    by (auto simp: dict_get_def split: option.splits json.splits)
qed

lemma alpha2_loop_Cons_Inr:
  assumes "alpha2_loop (c # cs) = Inr (r, n, w)"
  obtains c1 u r1 n1 w1 where
    "alpha2_country c = Inr (c1, u)" "alpha2_loop cs = Inr (r1, n1, w1)"
    "r = c1 # r1" "n = (if u then 1 else 0) + n1"
    "w = (if u then [] else [(dict_get c ''code'', dict_get c ''name'')]) @ w1"
  using assms by (auto split: sum.splits prod.splits)

lemma alpha2_loop_idem:
  "alpha2_loop cs = Inr (cs', n, w) \<Longrightarrow> alpha2_loop cs' = Inr (cs', n, w)"
proof (induction cs arbitrary: cs' n w)
  case Nil
  then show ?case by simp
next
  case (Cons c cs)
  from Cons.prems obtain c1 u r1 n1 w1 where
    s: "alpha2_country c = Inr (c1, u)" "alpha2_loop cs = Inr (r1, n1, w1)"
       "cs' = c1 # r1" "n = (if u then 1 else 0) + n1"
       "w = (if u then [] else [(dict_get c ''code'', dict_get c ''name'')]) @ w1"
    by (rule alpha2_loop_Cons_Inr)
  from s(1) have i: "alpha2_country c1 = Inr (c1, u)" by (rule alpha2_country_idem)
  from s(2) have r: "alpha2_loop r1 = Inr (r1, n1, w1)" by (rule Cons.IH)
  have same: "\<not> u \<Longrightarrow> c1 = c"
    using s(1) alpha2_country_False by simp
  show ?case
  proof (cases u)
    case True
    with i r s(3,4,5) show ?thesis by simp
  next
    case False
    with same have "c1 = c" by simp
    with False i r s(3,4,5) show ?thesis by simp
  qed
qed

lemma alpha2_loop_rel:
  "alpha2_loop cs = Inr (cs', n, w) \<Longrightarrow>
   list_all2 (\<lambda>c c'. \<exists>u. alpha2_country c = Inr (c', u)) cs cs'"
proof (induction cs arbitrary: cs' n w)
  case Nil
  then show ?case by simp
next
  case (Cons c cs)
  from Cons.prems obtain c1 u r1 n1 w1 where
    s: "alpha2_country c = Inr (c1, u)" "alpha2_loop cs = Inr (r1, n1, w1)"
       "cs' = c1 # r1"
    by (rule alpha2_loop_Cons_Inr)
  from s(2) have "list_all2 (\<lambda>c c'. \<exists>u. alpha2_country c = Inr (c', u)) cs r1"
    by (rule Cons.IH)
  with s(1,3) show ?case by auto
qed

lemma add_alpha2_main_Inr:
  assumes "add_alpha2_main d = Inr (d', n, w)"
  obtains doc v items items' where
    "d = JObj doc" "map_of doc ''countries'' = Some v" "iter_json v = Inr items"
    "alpha2_loop items = Inr (items', n, w)"
    "d' = JObj (AList.update ''countries'' (case v of JArr _ \<Rightarrow> JArr items' | _ \<Rightarrow> v) doc)"
proof -
  from assms obtain doc where d: "d = JObj doc"
    by (cases d) (simp_all add: add_alpha2_main_def)
  from assms obtain v where v: "map_of doc ''countries'' = Some v"
    unfolding d by (cases "map_of doc ''countries''") (simp_all add: add_alpha2_main_def)
  from assms obtain items where i: "iter_json v = Inr items"
    unfolding d by (cases "iter_json v") (simp_all add: add_alpha2_main_def v)
  from assms obtain items' where l: "alpha2_loop items = Inr (items', n, w)"
    and d': "d' = JObj (AList.update ''countries''
        (case v of JArr _ \<Rightarrow> JArr items' | _ \<Rightarrow> v) doc)"
    unfolding d by (cases "alpha2_loop items") (auto simp: add_alpha2_main_def v i)
  from d v i l d' show ?thesis by (rule that)
qed

lemma add_alpha2_main_idem:
  assumes "add_alpha2_main d = Inr (d', n, w)"
  shows "add_alpha2_main d' = Inr (d', n, w)"
proof -
  from assms obtain doc v items items' where
    s: "d = JObj doc" "map_of doc ''countries'' = Some v" "iter_json v = Inr items"
       "alpha2_loop items = Inr (items', n, w)"
       "d' = JObj (AList.update ''countries'' (case v of JArr _ \<Rightarrow> JArr items' | _ \<Rightarrow> v) doc)"
    by (rule add_alpha2_main_Inr)
  show ?thesis
  proof (cases "\<exists>xs. v = JArr xs")
    case True
    then obtain xs where v: "v = JArr xs" by blast
    with s(3) have "items = xs" by (simp add: iter_json_def)
    from s(4) have l: "alpha2_loop items' = Inr (items', n, w)" by (rule alpha2_loop_idem)
    from s(5) v have d': "d' = JObj (AList.update ''countries'' (JArr items') doc)" by simp
    show ?thesis
      unfolding d' by (simp add: add_alpha2_main_def AList.update_conv' iter_json_def l)
  next
    case False
    then have "(case v of JArr _ \<Rightarrow> JArr items' | _ \<Rightarrow> v) = v"
      by (cases v) simp_all
    with s(5) s(2) have "d' = d"
      by (simp add: s(1) AList.update_triv)
    with assms show ?thesis by simp
  qed
qed

lemma add_alpha2_main_countries:
  assumes "add_alpha2_main d = Inr (d', n, w)"
  shows "list_all2 (\<lambda>c c'. \<exists>u. alpha2_country c = Inr (c', u)) (countries_of d) (countries_of d')"
    and "\<forall>k. k \<noteq> ''countries'' \<longrightarrow> dict_get d' k = dict_get d k"
proof -
  from assms obtain doc v items items' where
    s: "d = JObj doc" "map_of doc ''countries'' = Some v" "iter_json v = Inr items"
       "alpha2_loop items = Inr (items', n, w)"
       "d' = JObj (AList.update ''countries'' (case v of JArr _ \<Rightarrow> JArr items' | _ \<Rightarrow> v) doc)"
    by (rule add_alpha2_main_Inr)
  show "\<forall>k. k \<noteq> ''countries'' \<longrightarrow> dict_get d' k = dict_get d k"
    unfolding s(1) s(5) by (simp add: dict_get_def AList.update_conv')
  show "list_all2 (\<lambda>c c'. \<exists>u. alpha2_country c = Inr (c', u)) (countries_of d) (countries_of d')"
  proof (cases "\<exists>xs. v = JArr xs")
    case True
    then obtain xs where v: "v = JArr xs" by blast
    with s(3) have i: "items = xs" by (simp add: iter_json_def)
    have a: "countries_of d = items"
      by (simp add: countries_of_def dict_get_def s(1) s(2) v i)
    have b: "countries_of d' = items'"
      by (simp add: countries_of_def dict_get_def s(5) v AList.update_conv')
    from s(4) show ?thesis unfolding a b by (rule alpha2_loop_rel)
  next
    case False
    then have a: "countries_of d = []"
      by (cases v) (simp_all add: countries_of_def dict_get_def s(1) s(2))
    from False have "(case v of JArr _ \<Rightarrow> JArr items' | _ \<Rightarrow> v) = v"
      by (cases v) simp_all
    with s(5) s(2) have "d' = d"
      by (simp add: s(1) AList.update_triv)
    with a show ?thesis by simp
  qed
qed

lemma alpha2_country_json: "\<exists>c' u. alpha2_country (country_json x) = Inr (c', u)"
  by (cases "alpha2_get (code x)")
    (auto simp: alpha2_country_def country_json_def)

lemma alpha2_loop_total:
  "(\<And>c. c \<in> set cs \<Longrightarrow> \<exists>c' u. alpha2_country c = Inr (c', u)) \<Longrightarrow>
   \<exists>cs' n w. alpha2_loop cs = Inr (cs', n, w)"
proof (induction cs)
  case Nil
  show ?case by simp
next
  case (Cons c cs)
  from Cons.prems [of c] obtain c' u where c: "alpha2_country c = Inr (c', u)" by auto
  from Cons.IH Cons.prems obtain cs' n w where r: "alpha2_loop cs = Inr (cs', n, w)"
    by (metis list.set_intros(2))
  from c r show ?case by simp
qed

lemma add_alpha2_main_output_document:
  "\<exists>d' n w. add_alpha2_main (output_document aggregated generated) = Inr (d', n, w)"
proof -
  have "\<exists>cs' n w. alpha2_loop (map country_json aggregated) = Inr (cs', n, w)"
    by (rule alpha2_loop_total) (auto simp: alpha2_country_json)
  then obtain cs' n w where "alpha2_loop (map country_json aggregated) = Inr (cs', n, w)"
    by blast
  then show ?thesis
    by (simp add: add_alpha2_main_def output_document_def iter_json_def)
qed

lemma output_document_countries:
  "countries_of (output_document aggregated generated) = map country_json aggregated"
  by (simp add: countries_of_def dict_get_def output_document_def)

lemma country_json_get:
  "dict_get (country_json x) ''alpha2'' = None"
  "dict_get (country_json x) ''code'' = Some (JStr (code x))"
  by (simp_all add: dict_get_def country_json_def)

lemma alpha3_FRA: "alpha2_get (wide ''FRA'') = Some (wide ''FR'')"
  by code_simp

lemma alpha3_NA: "alpha2_get (wide ''N/A'') = None"
  by code_simp

lemma main_document_example:
  "add_alpha2_main document_example
     = Inr (document_example_alpha2, 1, [(Some (JStr (wide ''N/A'')), Some (JStr (wide ''N/A'')))])"
  by (simp add: add_alpha2_main_def document_example_def document_example_alpha2_def
      output_document_def country_json_def iter_json_def alpha2_country_def
      alpha3_FRA alpha3_NA dict_get_def)

section \<open>The claims\<close>

text \<open>
  C1. In every entry of the list \<open>aggregate_data\<close> returns, the combined gold, silver
  and bronze counts are the sums of the entry's IMO, IOI and IPhO counts, and the
  combined total is the sum of the three totals. Every tally a parser stores for a row
  has a total that is the sum of its gold, silver and bronze counts; so in the entries
  aggregated from three parsed tables every one of the four tallies has.
\<close>

theorem C1_combined_sums:
  "(x \<in> set (aggregate_data order imo ioi ipho) \<longrightarrow>
      gold (combined (country_medals x))
        = gold (IMO (country_medals x)) + gold (IOI (country_medals x))
          + gold (IPhO (country_medals x))
      \<and> silver (combined (country_medals x))
        = silver (IMO (country_medals x)) + silver (IOI (country_medals x))
          + silver (IPhO (country_medals x))
      \<and> bronze (combined (country_medals x))
        = bronze (IMO (country_medals x)) + bronze (IOI (country_medals x))
          + bronze (IPhO (country_medals x))
      \<and> total (combined (country_medals x))
        = total (IMO (country_medals x)) + total (IOI (country_medals x))
          + total (IPhO (country_medals x)))
   \<and> (p \<in> set (parse_imo_data t) \<or> p \<in> set (parse_ioi_data t) \<or> p \<in> set (parse_ipho_data t)
        \<longrightarrow> total (snd p) = gold (snd p) + silver (snd p) + bronze (snd p))
   \<and> (y \<in> set (aggregate_data order (parse_imo_data t1) (parse_ioi_data t2) (parse_ipho_data t3))
        \<longrightarrow> tally_ok (IMO (country_medals y)) \<and> tally_ok (IOI (country_medals y))
          \<and> tally_ok (IPhO (country_medals y)) \<and> tally_ok (combined (country_medals y)))"
proof (intro conjI impI)
  assume "x \<in> set (aggregate_data order imo ioi ipho)"
  then obtain k where x: "x = aggregate_code (fst (normalize_country_names imo))
      (fst (normalize_country_names ioi)) (fst (normalize_country_names ipho)) k"
    by (auto simp: set_aggregate_data)
  show "gold (combined (country_medals x))
        = gold (IMO (country_medals x)) + gold (IOI (country_medals x))
          + gold (IPhO (country_medals x))"
    unfolding x by (rule aggregate_code_sums)
  show "silver (combined (country_medals x))
        = silver (IMO (country_medals x)) + silver (IOI (country_medals x))
          + silver (IPhO (country_medals x))"
    unfolding x by (rule aggregate_code_sums)
  show "bronze (combined (country_medals x))
        = bronze (IMO (country_medals x)) + bronze (IOI (country_medals x))
          + bronze (IPhO (country_medals x))"
    unfolding x by (rule aggregate_code_sums)
  show "total (combined (country_medals x))
        = total (IMO (country_medals x)) + total (IOI (country_medals x))
          + total (IPhO (country_medals x))"
    unfolding x by (rule aggregate_code_sums)
next
  assume "p \<in> set (parse_imo_data t) \<or> p \<in> set (parse_ioi_data t) \<or> p \<in> set (parse_ipho_data t)"
  then have "tally_ok (snd p)"
    using parse_imo_ok parse_ioi_ok parse_ipho_ok by blast
  then show "total (snd p) = gold (snd p) + silver (snd p) + bronze (snd p)"
    by (simp add: tally_ok_def)
next
  assume "y \<in> set (aggregate_data order (parse_imo_data t1) (parse_ioi_data t2) (parse_ipho_data t3))"
  then obtain k where y: "y = aggregate_code (fst (normalize_country_names (parse_imo_data t1)))
      (fst (normalize_country_names (parse_ioi_data t2)))
      (fst (normalize_country_names (parse_ipho_data t3))) k"
    by (auto simp: set_aggregate_data)
  have a: "tally_ok (IMO (country_medals y))"
    unfolding y aggregate_code_sources
    by (rule get_medals_normalized_ok) (simp add: parse_imo_ok)
  have b: "tally_ok (IOI (country_medals y))"
    unfolding y aggregate_code_sources
    by (rule get_medals_normalized_ok) (simp add: parse_ioi_ok)
  have c: "tally_ok (IPhO (country_medals y))"
    unfolding y aggregate_code_sources
    by (rule get_medals_normalized_ok) (simp add: parse_ipho_ok)
  have d: "tally_ok (combined (country_medals y))"
    using a b c unfolding y by (simp add: tally_ok_def aggregate_code_def Let_def)
  show "tally_ok (IMO (country_medals y))" by (rule a)
  show "tally_ok (IOI (country_medals y))" by (rule b)
  show "tally_ok (IPhO (country_medals y))" by (rule c)
  show "tally_ok (combined (country_medals y))" by (rule d)
qed

theorem C1_combined_sums_witness:
  "\<lparr>code = wide ''FRA'', country_name = Some ''France'',
      country_medals = \<lparr>IMO = tally 10 5 2, IOI = tally 3 1 0, IPhO = zero_tally,
                         combined = tally 13 6 2\<rparr>\<rparr>
     \<in> set (aggregate_data [wide ''FRA''] (parse_imo_data imo_table_example)
           (parse_ioi_data ioi_table_example) (parse_ipho_data None))
   \<and> total (tally 13 6 2) = total (tally 10 5 2) + total (tally 3 1 0) + total zero_tally
   \<and> total (tally 13 6 2) = 21
   \<and> (''France'', tally 10 5 2) \<in> set (parse_imo_data imo_table_example)
   \<and> total (tally 10 5 2) = gold (tally 10 5 2) + silver (tally 10 5 2) + bronze (tally 10 5 2)
   \<and> tally_ok (tally 13 6 2)"
proof -
  let ?x = "\<lparr>code = wide ''FRA'', country_name = Some ''France'',
      country_medals = \<lparr>IMO = tally 10 5 2, IOI = tally 3 1 0, IPhO = zero_tally,
                         combined = tally 13 6 2\<rparr>\<rparr>"
  have h1: "?x \<in> set (aggregate_data [wide ''FRA''] (parse_imo_data imo_table_example)
           (parse_ioi_data ioi_table_example) (parse_ipho_data None))"
    by (simp add: aggregate_tables_example)
  have h2: "(''France'', tally 10 5 2) \<in> set (parse_imo_data imo_table_example)"
    by (simp add: parse_imo_example)
  note t = C1_combined_sums [of ?x "[wide ''FRA'']" "parse_imo_data imo_table_example"
      "parse_ioi_data ioi_table_example" "parse_ipho_data None"
      "(''France'', tally 10 5 2)" imo_table_example ?x imo_table_example ioi_table_example None]
  from t h1 have c1: "total (tally 13 6 2)
      = total (tally 10 5 2) + total (tally 3 1 0) + total zero_tally"
    by simp
  from t h2 have c2: "total (tally 10 5 2)
      = gold (tally 10 5 2) + silver (tally 10 5 2) + bronze (tally 10 5 2)"
    by simp
  from t h1 have c3: "tally_ok (tally 13 6 2)"
    by simp
  have c4: "total (tally 13 6 2) = 21"
    by (simp add: tally_def)
  from h1 c1 c4 h2 c2 c3 show ?thesis by blast
qed

text \<open>
  C2. When the code of a label is already in \<open>normalized\<close>, the entry of that code
  afterwards is the new label with its own tally if the new label is strictly shorter
  than the existing name, and the existing entry, unchanged, otherwise (also on equal
  lengths). So at the end of a run the entry of a code is one record of the input,
  name and tally together: the first of the shortest labels that resolve to the code.
  The tallies of the other labels of that code are in no entry; nothing is added up.
\<close>

theorem C2_name_tie_break:
  "(map_of (fst st) (fst (resolve_code cn)) = Some existing \<longrightarrow>
      map_of (fst (normalize_item (cn, m) st)) (fst (resolve_code cn)) =
        Some (if length cn < length (name existing)
              then \<lparr>name = cn, medals = m\<rparr> else existing))
   \<and> (map_of (fst (normalize_country_names data)) c = Some e \<longrightarrow>
        (\<exists>pre post. data = pre @ (name e, medals e) # post
           \<and> fst (resolve_code (name e)) = c
           \<and> (\<forall>r\<in>set pre. fst (resolve_code (fst r)) = c
                  \<longrightarrow> length (name e) < length (fst r))
           \<and> (\<forall>r\<in>set post. fst (resolve_code (fst r)) = c
                  \<longrightarrow> length (name e) \<le> length (fst r))))"
proof (intro conjI impI)
  assume "map_of (fst st) (fst (resolve_code cn)) = Some existing"
  then show "map_of (fst (normalize_item (cn, m) st)) (fst (resolve_code cn)) =
        Some (if length cn < length (name existing)
              then \<lparr>name = cn, medals = m\<rparr> else existing)"
    by (simp add: map_of_normalize_item)
next
  assume "map_of (fst (normalize_country_names data)) c = Some e"
  with normalize_inv [of data c] have "wins data c e" by blast
  then show "\<exists>pre post. data = pre @ (name e, medals e) # post
           \<and> fst (resolve_code (name e)) = c
           \<and> (\<forall>r\<in>set pre. fst (resolve_code (fst r)) = c
                  \<longrightarrow> length (name e) < length (fst r))
           \<and> (\<forall>r\<in>set post. fst (resolve_code (fst r)) = c
                  \<longrightarrow> length (name e) \<le> length (fst r))"
    unfolding wins_def .
qed

theorem C2_name_tie_break_witness:
  "map_of (fst ([(wide ''CHN'', \<lparr>name = ''China'', medals = tally 5 4 3\<rparr>)], []))
       (fst (resolve_code ''Macao, China''))
     = Some \<lparr>name = ''China'', medals = tally 5 4 3\<rparr>
   \<and> map_of (fst (normalize_item (''Macao, China'', tally 0 1 2)
           ([(wide ''CHN'', \<lparr>name = ''China'', medals = tally 5 4 3\<rparr>)], []))) (wide ''CHN'')
     = Some \<lparr>name = ''China'', medals = tally 5 4 3\<rparr>
   \<and> map_of (fst (normalize_country_names
           [(''Macao, China'', tally 0 1 2), (''China'', tally 5 4 3)])) (wide ''CHN'')
     = Some \<lparr>name = ''China'', medals = tally 5 4 3\<rparr>
   \<and> (\<exists>pre post. [(''Macao, China'', tally 0 1 2), (''China'', tally 5 4 3)]
           = pre @ (''China'', tally 5 4 3) # post
         \<and> (\<forall>r\<in>set pre. fst (resolve_code (fst r)) = wide ''CHN''
                \<longrightarrow> length ''China'' < length (fst r)))"
proof -
  have h1: "map_of (fst ([(wide ''CHN'', \<lparr>name = ''China'', medals = tally 5 4 3\<rparr>)], []))
       (fst (resolve_code ''Macao, China''))
     = Some \<lparr>name = ''China'', medals = tally 5 4 3\<rparr>"
    by (simp add: resolve_Macao)
  have h2: "map_of (fst (normalize_country_names
           [(''Macao, China'', tally 0 1 2), (''China'', tally 5 4 3)])) (wide ''CHN'')
     = Some \<lparr>name = ''China'', medals = tally 5 4 3\<rparr>"
    by (simp add: normalize_Macao_China)
  note t = C2_name_tie_break [of "([(wide ''CHN'', \<lparr>name = ''China'', medals = tally 5 4 3\<rparr>)], [])"
      "''Macao, China''" "\<lparr>name = ''China'', medals = tally 5 4 3\<rparr>" "tally 0 1 2"
      "[(''Macao, China'', tally 0 1 2), (''China'', tally 5 4 3)]" "(wide ''CHN'')"
      "\<lparr>name = ''China'', medals = tally 5 4 3\<rparr>"]
  from t h1 have c1: "map_of (fst (normalize_item (''Macao, China'', tally 0 1 2)
           ([(wide ''CHN'', \<lparr>name = ''China'', medals = tally 5 4 3\<rparr>)], []))) (wide ''CHN'')
     = Some \<lparr>name = ''China'', medals = tally 5 4 3\<rparr>"
    by (simp add: resolve_Macao)
  from t h2 have c2: "\<exists>pre post. [(''Macao, China'', tally 0 1 2), (''China'', tally 5 4 3)]
           = pre @ (''China'', tally 5 4 3) # post
         \<and> (\<forall>r\<in>set pre. fst (resolve_code (fst r)) = wide ''CHN''
                \<longrightarrow> length ''China'' < length (fst r))"
    by simp blast
  from h1 c1 h2 c2 show ?thesis by blast
qed

text \<open>
  C3. When the loop over \<open>all_codes\<close> visits every code of the set once, the codes of
  the list returned are pairwise distinct, they are the codes of the three normalized
  dicts together, none left out, and every one of these codes has exactly one entry.
\<close>

theorem C3_codes_unique:
  "iterates order (all_codes imo ioi ipho) \<Longrightarrow>
   distinct (map code (aggregate_data order imo ioi ipho))
   \<and> set (map code (aggregate_data order imo ioi ipho))
       = set (map fst (fst (normalize_country_names imo)))
         \<union> set (map fst (fst (normalize_country_names ioi)))
         \<union> set (map fst (fst (normalize_country_names ipho)))
   \<and> (\<forall>c \<in> set (map fst (fst (normalize_country_names imo)))
         \<union> set (map fst (fst (normalize_country_names ioi)))
         \<union> set (map fst (fst (normalize_country_names ipho))).
        length (filter (\<lambda>x. code x = c) (aggregate_data order imo ioi ipho)) = 1)"
proof -
  assume it: "iterates order (all_codes imo ioi ipho)"
  let ?out = "aggregate_data order imo ioi ipho"
  let ?S = "set (map fst (fst (normalize_country_names imo)))
         \<union> set (map fst (fst (normalize_country_names ioi)))
         \<union> set (map fst (fst (normalize_country_names ipho)))"
  from it have d: "distinct order" and s: "set order = ?S"
    by (simp_all add: iterates_def all_codes_def)
  have a: "distinct (map code ?out)"
    using d by (rule distinct_codes_aggregate_data)
  have b: "set (map code ?out) = ?S"
    using s by (simp only: codes_aggregate_data)
  have c: "\<forall>c\<in>?S. length (filter (\<lambda>x. code x = c) ?out) = 1"
  proof
    fix c assume "c \<in> ?S"
    with b have "c \<in> set (map code ?out)" by blast
    then obtain x where x: "x \<in> set ?out" "code x = c" by auto
    from count_one [OF a x(1)] x(2) show "length (filter (\<lambda>x. code x = c) ?out) = 1"
      by simp
  qed
  from a b c show ?thesis by blast
qed

theorem C3_codes_unique_witness:
  "iterates [wide ''FRA'', wide ''CHN'']
     (all_codes [(''France'', tally 10 5 2), (''China'', tally 20 3 1)] [(''France'', tally 3 1 0)] [])
   \<and> distinct (map code (aggregate_data [wide ''FRA'', wide ''CHN'']
       [(''France'', tally 10 5 2), (''China'', tally 20 3 1)] [(''France'', tally 3 1 0)] []))
   \<and> set (map code (aggregate_data [wide ''FRA'', wide ''CHN'']
       [(''France'', tally 10 5 2), (''China'', tally 20 3 1)] [(''France'', tally 3 1 0)] []))
     = {wide ''FRA'', wide ''CHN''}
   \<and> length (filter (\<lambda>x. code x = wide ''FRA'') (aggregate_data [wide ''FRA'', wide ''CHN'']
       [(''France'', tally 10 5 2), (''China'', tally 20 3 1)] [(''France'', tally 3 1 0)] [])) = 1"
proof -
  note t = C3_codes_unique [OF iterates_example]
  from t have a: "distinct (map code (aggregate_data [wide ''FRA'', wide ''CHN'']
       [(''France'', tally 10 5 2), (''China'', tally 20 3 1)] [(''France'', tally 3 1 0)] []))"
    by blast
  from t have b: "set (map code (aggregate_data [wide ''FRA'', wide ''CHN'']
       [(''France'', tally 10 5 2), (''China'', tally 20 3 1)] [(''France'', tally 3 1 0)] []))
     = {wide ''FRA'', wide ''CHN''}"
    unfolding normalize_example_imo normalize_example_ioi normalize_nil by auto
  from t have c: "length (filter (\<lambda>x. code x = wide ''FRA'') (aggregate_data [wide ''FRA'', wide ''CHN'']
       [(''France'', tally 10 5 2), (''China'', tally 20 3 1)] [(''France'', tally 3 1 0)] [])) = 1"
    unfolding normalize_example_imo normalize_example_ioi normalize_nil by simp
  from iterates_example a b c show ?thesis by blast
qed

text \<open>
  C4, as amended. An IMO row whose country cell text contains a name of
  \<open>HISTORICAL_COUNTRIES\<close>, as a substring and without regard to case, leaves \<open>data\<close> as
  it is: the row is dropped before any name is resolved. An IOI or IPhO row is dropped
  when the country name read from it is equal to a name of the set. So no name of the
  set, Soviet Union among them, is ever a key of the dict an IOI or IPhO parse
  returns, nor of the dict an IMO parse returns when, in every row of at least six
  cells (the rows the parser reads), the text of every anchor of the country cell is
  part of the cell's text; a label equal to such a name reaches neither the normalizer
  nor the output.
\<close>

theorem C4_historical_rows:
  "(historical_in (cell_text (cells ! 1)) \<noteq> None \<longrightarrow> imo_row cells data = data)
   \<and> (link_country_name (cells ! 1) \<in> set HISTORICAL_COUNTRIES \<longrightarrow>
        ioi_row cells data = data \<and> ipho_row cells data = data)
   \<and> (h \<in> set HISTORICAL_COUNTRIES \<longrightarrow>
        h \<notin> fst ` set (parse_ioi_data t) \<and> h \<notin> fst ` set (parse_ipho_data t))
   \<and> (h \<in> set HISTORICAL_COUNTRIES
        \<and> list_all (\<lambda>cells. 6 \<le> length cells \<longrightarrow> links_in_text (cells ! 1)) (tl rows)
        \<longrightarrow> h \<notin> fst ` set (parse_imo_data (Some rows)))"
  using imo_row_historical ioi_row_historical ipho_row_historical
    parse_ioi_keys parse_ipho_keys parse_imo_keys
  by blast

theorem C4_historical_rows_witness:
  "historical_in (cell_text (soviet_row_example ! 1)) \<noteq> None
   \<and> imo_row soviet_row_example [(''France'', tally 1 0 0)] = [(''France'', tally 1 0 0)]
   \<and> link_country_name (soviet_row_example ! 1) \<in> set HISTORICAL_COUNTRIES
   \<and> ioi_row soviet_row_example [(''France'', tally 1 0 0)] = [(''France'', tally 1 0 0)]
   \<and> ipho_row soviet_row_example [(''France'', tally 1 0 0)] = [(''France'', tally 1 0 0)]
   \<and> ''Soviet Union'' \<in> set HISTORICAL_COUNTRIES
   \<and> ''Soviet Union''
        \<notin> fst ` set (parse_ioi_data (Some [[plain_cell ''Country'' None], soviet_row_example]))
   \<and> list_all (\<lambda>cells. 6 \<le> length cells \<longrightarrow> links_in_text (cells ! 1))
        (tl [[plain_cell ''Country'' None], [plain_cell ''Notes'' None], soviet_row_example])
   \<and> ''Soviet Union''
        \<notin> fst ` set (parse_imo_data
            (Some [[plain_cell ''Country'' None], [plain_cell ''Notes'' None],
                   soviet_row_example]))"
proof -
  have h1: "historical_in (cell_text (soviet_row_example ! 1)) \<noteq> None"
    by (simp add: soviet_row_example_def historical_in_Soviet)
  have h2: "link_country_name (soviet_row_example ! 1) \<in> set HISTORICAL_COUNTRIES"
    by (simp add: soviet_row_example_def link_country_name_def Soviet_historical)
  have h3: "list_all (\<lambda>cells. 6 \<le> length cells \<longrightarrow> links_in_text (cells ! 1))
        (tl [[plain_cell ''Country'' None], [plain_cell ''Notes'' None], soviet_row_example])"
    by (simp add: soviet_row_example_def links_in_text_def str_in_def)
  note t = C4_historical_rows [of soviet_row_example "[(''France'', tally 1 0 0)]"
      "''Soviet Union''" "Some [[plain_cell ''Country'' None], soviet_row_example]"
      "[[plain_cell ''Country'' None], [plain_cell ''Notes'' None], soviet_row_example]"]
  from t h1 h2 h3 Soviet_historical show ?thesis by blast
qed

text \<open>
  C4 as stated fails for the IOI and IPhO parsers, which test the extracted name for
  membership in the set: the IOI row whose country cell reads Soviet Union (Russia)
  contains the historical name, is stored under its label all the same, and its medals
  come out under the code RUS.
\<close>

theorem C4_counterexample:
  "historical_in (cell_text (soviet_russia_row_example ! 1)) = Some ''Soviet Union''
   \<and> ioi_row soviet_russia_row_example [] = [(''Soviet Union (Russia)'', tally 5 4 3)]
   \<and> ioi_row soviet_russia_row_example [] \<noteq> []
   \<and> aggregate_data [wide ''RUS''] []
        (parse_ioi_data (Some [[plain_cell ''Country'' None], soviet_russia_row_example])) []
      = [\<lparr>code = wide ''RUS'', country_name = Some ''Soviet Union (Russia)'',
           country_medals = \<lparr>IMO = zero_tally, IOI = tally 5 4 3, IPhO = zero_tally,
                              combined = tally 5 4 3\<rparr>\<rparr>]"
proof -
  have a: "historical_in (cell_text (soviet_russia_row_example ! 1)) = Some ''Soviet Union''"
    by (simp add: soviet_russia_row_example_def plain_cell_def historical_in_Soviet_Russia)
  have b: "aggregate_data [wide ''RUS''] []
        (parse_ioi_data (Some [[plain_cell ''Country'' None], soviet_russia_row_example])) []
      = [\<lparr>code = wide ''RUS'', country_name = Some ''Soviet Union (Russia)'',
           country_medals = \<lparr>IMO = zero_tally, IOI = tally 5 4 3, IPhO = zero_tally,
                              combined = tally 5 4 3\<rparr>\<rparr>]"
    unfolding parse_ioi_Soviet_Russia
    by (simp add: aggregate_data_def normalize_country_names_def normalize_item_def
        resolve_Soviet_Russia aggregate_code_def get_medals_def
        get_name_def py_or_def tally_def zero_tally_def Let_def)
  from a b ioi_row_Soviet_Russia show ?thesis by simp
qed

text \<open>
  C5. The list \<open>aggregate_data\<close> returns is sorted by combined total, descending: of
  every two adjacent entries the earlier has a combined total greater than or equal to
  the later's. This holds for every order in which the set of codes is visited.
\<close>

theorem C5_sorted_descending:
  "Suc i < length (aggregate_data order imo ioi ipho) \<Longrightarrow>
   combined_total (aggregate_data order imo ioi ipho ! i)
     \<ge> combined_total (aggregate_data order imo ioi ipho ! Suc i)"
proof -
  assume a: "Suc i < length (aggregate_data order imo ioi ipho)"
  let ?out = "aggregate_data order imo ioi ipho"
  have "sorted (map (\<lambda>x. - combined_total x) ?out)"
    by (rule sorted_aggregate_data)
  then have "map (\<lambda>x. - combined_total x) ?out ! i
      \<le> map (\<lambda>x. - combined_total x) ?out ! Suc i"
    using a by (simp add: sorted_iff_nth_Suc del: nth_map)
  with a show ?thesis by simp
qed

theorem C5_sorted_descending_witness:
  "Suc 0 < length (aggregate_data [wide ''FRA'', wide ''CHN'']
       [(''France'', tally 10 5 2), (''China'', tally 20 3 1)] [(''France'', tally 3 1 0)] [])
   \<and> combined_total (aggregate_data [wide ''FRA'', wide ''CHN'']
       [(''France'', tally 10 5 2), (''China'', tally 20 3 1)] [(''France'', tally 3 1 0)] [] ! 0)
     \<ge> combined_total (aggregate_data [wide ''FRA'', wide ''CHN'']
       [(''France'', tally 10 5 2), (''China'', tally 20 3 1)] [(''France'', tally 3 1 0)] []
         ! Suc 0)
   \<and> map combined_total (aggregate_data [wide ''FRA'', wide ''CHN'']
       [(''France'', tally 10 5 2), (''China'', tally 20 3 1)] [(''France'', tally 3 1 0)] [])
     = [24, 21]"
  using C5_sorted_descending [of 0 "[wide ''FRA'', wide ''CHN'']"
      "[(''France'', tally 10 5 2), (''China'', tally 20 3 1)]" "[(''France'', tally 3 1 0)]" "[]"]
  unfolding aggregate_example
  by (simp add: combined_total_def tally_def)

text \<open>
  C6. A parser that finds no table returns the empty dict. \<open>aggregate_data\<close> is a
  total function: an empty input for a competition is normalized to the empty dict
  and every entry of the output has the zero tally for that competition. Every code of \<open>all_codes\<close> has exactly one entry in the output, and
  that entry has the zero tally for every competition whose normalized dict does not
  have the code; so a country of one source only has two zero tallies.
\<close>

theorem C6_missing_sources:
  assumes "iterates order (all_codes imo ioi ipho)"
  shows "(imo = [] \<longrightarrow>
           (\<forall>x\<in>set (aggregate_data order imo ioi ipho). IMO (country_medals x) = zero_tally))
   \<and> (ioi = [] \<longrightarrow>
           (\<forall>x\<in>set (aggregate_data order imo ioi ipho). IOI (country_medals x) = zero_tally))
   \<and> (ipho = [] \<longrightarrow>
           (\<forall>x\<in>set (aggregate_data order imo ioi ipho). IPhO (country_medals x) = zero_tally))
   \<and> (\<forall>c\<in>all_codes imo ioi ipho.
         \<exists>x. filter (\<lambda>y. code y = c) (aggregate_data order imo ioi ipho) = [x]
           \<and> (map_of (fst (normalize_country_names imo)) c = None
                \<longrightarrow> IMO (country_medals x) = zero_tally)
           \<and> (map_of (fst (normalize_country_names ioi)) c = None
                \<longrightarrow> IOI (country_medals x) = zero_tally)
           \<and> (map_of (fst (normalize_country_names ipho)) c = None
                \<longrightarrow> IPhO (country_medals x) = zero_tally))
   \<and> parse_imo_data None = [] \<and> parse_ioi_data None = [] \<and> parse_ipho_data None = []"
proof -
  let ?a = "fst (normalize_country_names imo)"
  let ?b = "fst (normalize_country_names ioi)"
  let ?c = "fst (normalize_country_names ipho)"
  let ?out = "aggregate_data order imo ioi ipho"
  have mem: "\<exists>k. x = aggregate_code ?a ?b ?c k" if "x \<in> set ?out" for x
    using that by (auto simp: set_aggregate_data)
  have src: "IMO (country_medals x) = get_medals (map_of ?a (code x))
      \<and> IOI (country_medals x) = get_medals (map_of ?b (code x))
      \<and> IPhO (country_medals x) = get_medals (map_of ?c (code x))" if "x \<in> set ?out" for x
  proof -
    from mem [OF that] obtain k where "x = aggregate_code ?a ?b ?c k" by blast
    then show ?thesis by (simp add: aggregate_code_sources)
  qed
  have nil: "fst (normalize_country_names []) = []"
    by (simp add: normalize_country_names_def)
  have e1: "imo = [] \<longrightarrow> (\<forall>x\<in>set ?out. IMO (country_medals x) = zero_tally)"
  proof (intro impI ballI)
    fix x assume "imo = []" and "x \<in> set ?out"
    with src [of x] nil show "IMO (country_medals x) = zero_tally"
      by (simp add: get_medals_def)
  qed
  have e2: "ioi = [] \<longrightarrow> (\<forall>x\<in>set ?out. IOI (country_medals x) = zero_tally)"
  proof (intro impI ballI)
    fix x assume "ioi = []" and "x \<in> set ?out"
    with src [of x] nil show "IOI (country_medals x) = zero_tally"
      by (simp add: get_medals_def)
  qed
  have e3: "ipho = [] \<longrightarrow> (\<forall>x\<in>set ?out. IPhO (country_medals x) = zero_tally)"
  proof (intro impI ballI)
    fix x assume "ipho = []" and "x \<in> set ?out"
    with src [of x] nil show "IPhO (country_medals x) = zero_tally"
      by (simp add: get_medals_def)
  qed
  from assms have d: "distinct order" and s: "set order = all_codes imo ioi ipho"
    by (simp_all add: iterates_def)
  have dist: "distinct (map code ?out)"
    using d by (rule distinct_codes_aggregate_data)
  have e4: "\<forall>c\<in>all_codes imo ioi ipho.
         \<exists>x. filter (\<lambda>y. code y = c) ?out = [x]
           \<and> (map_of ?a c = None \<longrightarrow> IMO (country_medals x) = zero_tally)
           \<and> (map_of ?b c = None \<longrightarrow> IOI (country_medals x) = zero_tally)
           \<and> (map_of ?c c = None \<longrightarrow> IPhO (country_medals x) = zero_tally)"
  proof
    fix c assume "c \<in> all_codes imo ioi ipho"
    with s have "c \<in> set (map code ?out)" by (simp only: codes_aggregate_data)
    then obtain x where x: "x \<in> set ?out" "code x = c" by auto
    from count_one [OF dist x(1)] x(2) have "length (filter (\<lambda>y. code y = c) ?out) = 1"
      by simp
    then obtain z where z: "filter (\<lambda>y. code y = c) ?out = [z]"
      by (auto simp: length_Suc_conv)
    then have "z \<in> set (filter (\<lambda>y. code y = c) ?out)" by simp
    then have zin: "z \<in> set ?out" and zc: "code z = c" by auto
    from mem [OF zin] obtain k where k: "z = aggregate_code ?a ?b ?c k" by blast
    with zc have kc: "k = c" by simp
    have props: "(map_of ?a c = None \<longrightarrow> IMO (country_medals z) = zero_tally)
        \<and> (map_of ?b c = None \<longrightarrow> IOI (country_medals z) = zero_tally)
        \<and> (map_of ?c c = None \<longrightarrow> IPhO (country_medals z) = zero_tally)"
      unfolding k kc by (simp add: aggregate_code_sources get_medals_def)
    show "\<exists>x. filter (\<lambda>y. code y = c) ?out = [x]
           \<and> (map_of ?a c = None \<longrightarrow> IMO (country_medals x) = zero_tally)
           \<and> (map_of ?b c = None \<longrightarrow> IOI (country_medals x) = zero_tally)
           \<and> (map_of ?c c = None \<longrightarrow> IPhO (country_medals x) = zero_tally)"
      by (rule exI [of _ z]) (rule conjI [OF z props])
  qed
  have e5: "parse_imo_data None = [] \<and> parse_ioi_data None = [] \<and> parse_ipho_data None = []"
    by (simp add: parse_imo_data_def parse_ioi_data_def parse_ipho_data_def)
  show ?thesis by (rule conjI [OF e1 conjI [OF e2 conjI [OF e3 conjI [OF e4 e5]]]])
qed

theorem C6_missing_sources_witness:
  "iterates [wide ''FRA'', wide ''CHN'']
     (all_codes [(''France'', tally 10 5 2), (''China'', tally 20 3 1)] [(''France'', tally 3 1 0)] [])
   \<and> list_all (\<lambda>x. IPhO (country_medals x) = zero_tally)
        (aggregate_data [wide ''FRA'', wide ''CHN'']
          [(''France'', tally 10 5 2), (''China'', tally 20 3 1)] [(''France'', tally 3 1 0)] [])
   \<and> (wide ''CHN'') \<in> all_codes [(''France'', tally 10 5 2), (''China'', tally 20 3 1)]
        [(''France'', tally 3 1 0)] []
   \<and> (\<exists>x. filter (\<lambda>y. code y = wide ''CHN'')
          (aggregate_data [wide ''FRA'', wide ''CHN'']
            [(''France'', tally 10 5 2), (''China'', tally 20 3 1)] [(''France'', tally 3 1 0)] [])
          = [x]
        \<and> IMO (country_medals x) = tally 20 3 1
        \<and> IOI (country_medals x) = zero_tally
        \<and> IPhO (country_medals x) = zero_tally)"
proof -
  let ?imo = "[(''France'', tally 10 5 2), (''China'', tally 20 3 1)]"
  let ?ioi = "[(''France'', tally 3 1 0)]"
  let ?out = "aggregate_data [wide ''FRA'', wide ''CHN''] ?imo ?ioi []"
  note t = C6_missing_sources [OF iterates_example]
  have m: "(wide ''CHN'') \<in> all_codes ?imo ?ioi []"
    unfolding all_codes_def normalize_example_imo normalize_example_ioi normalize_nil by simp
  have n1: "map_of (fst (normalize_country_names ?ioi)) (wide ''CHN'') = None"
    unfolding normalize_example_ioi by simp
  have n2: "map_of (fst (normalize_country_names [])) (wide ''CHN'') = None"
    unfolding normalize_nil by simp
  from t [THEN conjunct2, THEN conjunct2, THEN conjunct1]
  have "\<forall>x\<in>set ?out. IPhO (country_medals x) = zero_tally" by simp
  then have a: "list_all (\<lambda>x. IPhO (country_medals x) = zero_tally) ?out"
    by (simp only: list_all_iff)
  note q = t [THEN conjunct2, THEN conjunct2, THEN conjunct2, THEN conjunct1, THEN bspec, OF m]
  from q n1 n2 obtain x where x: "filter (\<lambda>y. code y = wide ''CHN'') ?out = [x]"
      "IOI (country_medals x) = zero_tally" "IPhO (country_medals x) = zero_tally"
    by auto
  from x(1) have "x = \<lparr>code = wide ''CHN'', country_name = Some ''China'',
        country_medals = \<lparr>IMO = tally 20 3 1, IOI = zero_tally, IPhO = zero_tally,
                           combined = tally 20 3 1\<rparr>\<rparr>"
    unfolding aggregate_example by simp
  then have "IMO (country_medals x) = tally 20 3 1" by simp
  with x have e: "\<exists>x. filter (\<lambda>y. code y = wide ''CHN'') ?out = [x]
        \<and> IMO (country_medals x) = tally 20 3 1
        \<and> IOI (country_medals x) = zero_tally
        \<and> IPhO (country_medals x) = zero_tally"
    by (intro exI [of _ x]) simp
  show ?thesis by (rule conjI [OF iterates_example conjI [OF a conjI [OF m e]]])
qed

text \<open>
  C7. For every label the resolver returns a code that is not the empty string, by
  whichever of its three ways: the code of the exact key, the code of the first item
  that matches partially, or the label's first three characters in upper case. The
  model of the resolver is a total function with no error value: no operation of lines
  373 to 389 raises on a string.
\<close>

theorem C7_code_nonempty:
  "fst (resolve_code label) \<noteq> []
   \<and> resolve_code label =
     (case map_of COUNTRY_CODE_MAP label of
        Some c \<Rightarrow> (wide c, [])
      | None \<Rightarrow>
          (case find (partial_match label) COUNTRY_CODE_MAP of
             Some (n, c) \<Rightarrow> (wide c, [])
           | None \<Rightarrow> (upper (take 3 label), [warning label])))"
proof
  show "fst (resolve_code label) \<noteq> []"
  proof (cases "map_of COUNTRY_CODE_MAP label")
    case (Some c)
    then have "(label, c) \<in> set COUNTRY_CODE_MAP" by (rule map_of_SomeD)
    with codes_nonempty have "c \<noteq> []" by (auto simp: list_all_iff)
    with Some show ?thesis by (simp add: resolve_code_cases)
  next
    case None
    show ?thesis
    proof (cases "find (partial_match label) COUNTRY_CODE_MAP")
      case n: None
      with find_empty_label have "label \<noteq> []" by auto
      then have "upper (take 3 label) \<noteq> []" by (intro upper_nonempty) simp
      with None n show ?thesis by (simp add: resolve_code_cases)
    next
      case (Some e)
      obtain n c where e: "e = (n, c)" by (cases e)
      from Some have "e \<in> set COUNTRY_CODE_MAP" by (auto simp: find_Some_iff)
      with codes_nonempty e have "c \<noteq> []" by (auto simp: list_all_iff)
      with None Some e show ?thesis by (simp add: resolve_code_cases)
    qed
  qed
  show "resolve_code label =
     (case map_of COUNTRY_CODE_MAP label of
        Some c \<Rightarrow> (wide c, [])
      | None \<Rightarrow>
          (case find (partial_match label) COUNTRY_CODE_MAP of
             Some (n, c) \<Rightarrow> (wide c, [])
           | None \<Rightarrow> (upper (take 3 label), [warning label])))"
    by (rule resolve_code_cases)
qed

theorem C7_code_nonempty_witness:
  "fst (resolve_code ''France'') \<noteq> [] \<and> resolve_code ''France'' = (wide ''FRA'', [])"
proof -
  from C7_code_nonempty [of "''France''"] have "fst (resolve_code ''France'') \<noteq> []"
    by blast
  then show ?thesis by (simp add: resolve_France)
qed

text \<open>
  C8, as amended. For a label (of code points up to U+00FF) that neither is a key of
  the dictionary nor matches an item partially, the resolver returns the upper-casing
  of the label's first three characters, of the whole label when it has fewer than
  three, and prints one warning. The code has one character for each character of that
  slice and one more for each U+00DF in it, which upper-cases to SS; so it has three
  characters when the label has at least three and none of its first three is U+00DF.
\<close>

theorem C8_unresolved_fallback:
  "map_of COUNTRY_CODE_MAP label = None \<Longrightarrow>
   find (partial_match label) COUNTRY_CODE_MAP = None \<Longrightarrow>
   resolve_code label = (upper (take 3 label), [warning label])
   \<and> length (fst (resolve_code label))
       = min 3 (length label) + length (filter (\<lambda>c. c = CHR 0xDF) (take 3 label))
   \<and> (3 \<le> length label \<and> CHR 0xDF \<notin> set (take 3 label)
        \<longrightarrow> length (fst (resolve_code label)) = 3)"
proof -
  assume a: "map_of COUNTRY_CODE_MAP label = None"
    and b: "find (partial_match label) COUNTRY_CODE_MAP = None"
  from a b have r: "resolve_code label = (upper (take 3 label), [warning label])"
    by (simp add: resolve_code_cases)
  have l: "length (fst (resolve_code label))
       = min 3 (length label) + length (filter (\<lambda>c. c = CHR 0xDF) (take 3 label))"
    by (simp add: r length_upper min.commute)
  have "filter (\<lambda>c. c = CHR 0xDF) (take 3 label) = []"
    if "CHR 0xDF \<notin> set (take 3 label)"
    using that by (auto simp: filter_empty_conv)
  with l have "3 \<le> length label \<and> CHR 0xDF \<notin> set (take 3 label)
        \<longrightarrow> length (fst (resolve_code label)) = 3"
    by simp
  with r l show ?thesis by blast
qed

theorem C8_unresolved_fallback_witness:
  "map_of COUNTRY_CODE_MAP ''n/a'' = None
   \<and> find (partial_match ''n/a'') COUNTRY_CODE_MAP = None
   \<and> resolve_code ''n/a'' = (wide ''N/A'', [warning ''n/a''])
   \<and> length (fst (resolve_code ''n/a'')) = 3
   \<and> map_of COUNTRY_CODE_MAP [CHR 0xDF, CHR ''/'', CHR ''a''] = None
   \<and> find (partial_match [CHR 0xDF, CHR ''/'', CHR ''a'']) COUNTRY_CODE_MAP = None
   \<and> resolve_code [CHR 0xDF, CHR ''/'', CHR ''a''] = (wide ''SS/A'', [warning [CHR 0xDF, CHR ''/'', CHR ''a'']])
   \<and> length (fst (resolve_code [CHR 0xDF, CHR ''/'', CHR ''a''])) = 4"
proof -
  from C8_unresolved_fallback [OF map_of_na find_na]
  have a: "resolve_code ''n/a'' = (wide ''N/A'', [warning ''n/a''])"
    and b: "length (fst (resolve_code ''n/a'')) = 3"
    by (simp_all add: upper_na)
  from C8_unresolved_fallback [OF map_of_sharp_s find_sharp_s]
  have c: "resolve_code [CHR 0xDF, CHR ''/'', CHR ''a'']
      = (wide ''SS/A'', [warning [CHR 0xDF, CHR ''/'', CHR ''a'']])"
    by (simp add: upper_sharp_s)
  from C8_unresolved_fallback [OF map_of_sharp_s find_sharp_s]
  have d: "length (fst (resolve_code [CHR 0xDF, CHR ''/'', CHR ''a''])) = 4"
    by (simp add: upper_sharp_s)
  from map_of_na find_na a b map_of_sharp_s find_sharp_s c d show ?thesis
    by (intro conjI)
qed

text \<open>
  C8 as stated fails on a label shorter than three characters, and on a label with
  U+00DF among its first three: the label \<open>x-\<close> is a key of no item and part of no
  name, and its code \<open>X-\<close> has two characters; the code of the three-character label
  of U+00DF, a slash and \<open>a\<close> is \<open>SS/A\<close>, of four.
\<close>

theorem C8_counterexample:
  "map_of COUNTRY_CODE_MAP ''x-'' = None
   \<and> find (partial_match ''x-'') COUNTRY_CODE_MAP = None
   \<and> resolve_code ''x-'' = (wide ''X-'', [warning ''x-''])
   \<and> length (fst (resolve_code ''x-'')) \<noteq> 3
   \<and> resolve_code [CHR 0xDF, CHR ''/'', CHR ''a''] = (wide ''SS/A'', [warning [CHR 0xDF, CHR ''/'', CHR ''a'']])
   \<and> length (fst (resolve_code [CHR 0xDF, CHR ''/'', CHR ''a''])) \<noteq> 3"
proof -
  have a: "resolve_code ''x-'' = (wide ''X-'', [warning ''x-''])"
    using map_of_x_hyphen find_x_hyphen by (simp add: resolve_code_cases upper_x_hyphen)
  have b: "resolve_code [CHR 0xDF, CHR ''/'', CHR ''a'']
      = (wide ''SS/A'', [warning [CHR 0xDF, CHR ''/'', CHR ''a'']])"
    using map_of_sharp_s find_sharp_s by (simp add: resolve_code_cases upper_sharp_s)
  have c: "length (fst (resolve_code ''x-'')) \<noteq> 3"
    by (simp add: a)
  have d: "length (fst (resolve_code [CHR 0xDF, CHR ''/'', CHR ''a''])) \<noteq> 3"
    by (simp add: b)
  from map_of_x_hyphen find_x_hyphen a c b d show ?thesis
    by (intro conjI)
qed

text \<open>
  C9. Whenever \<open>add_alpha2_codes.py\<close> writes a document, running it on the document
  written writes the same document again, with the same counter and warnings. It
  leaves every key of the document other than \<open>countries\<close> as it is, and in every
  country every key other than \<open>alpha2\<close>, \<open>medals\<close> among them; \<open>alpha2\<close> is set to the
  entry of \<open>ALPHA3_TO_ALPHA2\<close> for the country's code when the code is a string the map
  has, and is left as it was (absent, in a document of \<open>scrape_data.py\<close>) otherwise. On
  every document \<open>scrape_data.py\<close> writes, the post-process raises nothing.
\<close>

theorem C9_alpha2_idempotent:
  "(add_alpha2_main d = Inr (d', n, w) \<longrightarrow>
      add_alpha2_main d' = Inr (d', n, w)
      \<and> (\<forall>k. k \<noteq> ''countries'' \<longrightarrow> dict_get d' k = dict_get d k)
      \<and> list_all2
          (\<lambda>c c'. dict_get c' ''medals'' = dict_get c ''medals''
             \<and> (\<forall>k. k \<noteq> ''alpha2'' \<longrightarrow> dict_get c' k = dict_get c k)
             \<and> dict_get c' ''alpha2'' =
                 (case dict_get c ''code'' of
                    Some (JStr s) \<Rightarrow>
                      (case alpha2_get s of
                         Some a \<Rightarrow> Some (JStr a)
                       | None \<Rightarrow> dict_get c ''alpha2'')
                  | _ \<Rightarrow> dict_get c ''alpha2''))
          (countries_of d) (countries_of d'))
   \<and> (\<exists>d' n w. add_alpha2_main (output_document aggregated generated) = Inr (d', n, w))
   \<and> countries_of (output_document aggregated generated) = map country_json aggregated
   \<and> dict_get (country_json x) ''alpha2'' = None
   \<and> dict_get (country_json x) ''code'' = Some (JStr (code x))"
proof (intro conjI impI)
  assume a: "add_alpha2_main d = Inr (d', n, w)"
  show "add_alpha2_main d' = Inr (d', n, w)"
    using a by (rule add_alpha2_main_idem)
  show "\<forall>k. k \<noteq> ''countries'' \<longrightarrow> dict_get d' k = dict_get d k"
    using a by (rule add_alpha2_main_countries)
  have "list_all2 (\<lambda>c c'. \<exists>u. alpha2_country c = Inr (c', u)) (countries_of d) (countries_of d')"
    using a by (rule add_alpha2_main_countries)
  then show "list_all2
          (\<lambda>c c'. dict_get c' ''medals'' = dict_get c ''medals''
             \<and> (\<forall>k. k \<noteq> ''alpha2'' \<longrightarrow> dict_get c' k = dict_get c k)
             \<and> dict_get c' ''alpha2'' =
                 (case dict_get c ''code'' of
                    Some (JStr s) \<Rightarrow>
                      (case alpha2_get s of
                         Some a \<Rightarrow> Some (JStr a)
                       | None \<Rightarrow> dict_get c ''alpha2'')
                  | _ \<Rightarrow> dict_get c ''alpha2''))
          (countries_of d) (countries_of d')"
  proof (rule list_all2_mono)
    fix c c'
    assume "\<exists>u. alpha2_country c = Inr (c', u)"
    then obtain u where u: "alpha2_country c = Inr (c', u)" by blast
    note g = alpha2_country_get [OF u]
    from g have m: "dict_get c' ''medals'' = dict_get c ''medals''" by simp
    show "dict_get c' ''medals'' = dict_get c ''medals''
             \<and> (\<forall>k. k \<noteq> ''alpha2'' \<longrightarrow> dict_get c' k = dict_get c k)
             \<and> dict_get c' ''alpha2'' =
                 (case dict_get c ''code'' of
                    Some (JStr s) \<Rightarrow>
                      (case alpha2_get s of
                         Some a \<Rightarrow> Some (JStr a)
                       | None \<Rightarrow> dict_get c ''alpha2'')
                  | _ \<Rightarrow> dict_get c ''alpha2'')"
      by (rule conjI [OF m conjI [OF g [THEN conjunct1] g [THEN conjunct2]]])
  qed
next
  show "\<exists>d' n w. add_alpha2_main (output_document aggregated generated) = Inr (d', n, w)"
    by (rule add_alpha2_main_output_document)
  show "countries_of (output_document aggregated generated) = map country_json aggregated"
    by (rule output_document_countries)
  show "dict_get (country_json x) ''alpha2'' = None"
    by (rule country_json_get)
  show "dict_get (country_json x) ''code'' = Some (JStr (code x))"
    by (rule country_json_get)
qed

theorem C9_alpha2_idempotent_witness:
  "add_alpha2_main document_example
     = Inr (document_example_alpha2, 1, [(Some (JStr (wide ''N/A'')), Some (JStr (wide ''N/A'')))])
   \<and> add_alpha2_main document_example_alpha2
     = Inr (document_example_alpha2, 1, [(Some (JStr (wide ''N/A'')), Some (JStr (wide ''N/A'')))])
   \<and> dict_get document_example_alpha2 ''metadata'' = dict_get document_example ''metadata''
   \<and> map (\<lambda>c. dict_get c ''medals'') (countries_of document_example_alpha2)
     = map (\<lambda>c. dict_get c ''medals'') (countries_of document_example)
   \<and> map (\<lambda>c. dict_get c ''alpha2'') (countries_of document_example_alpha2)
     = [Some (JStr (wide ''FR'')), None]"
proof -
  note t = C9_alpha2_idempotent [of document_example document_example_alpha2 1
      "[(Some (JStr (wide ''N/A'')), Some (JStr (wide ''N/A'')))]"]
  from t main_document_example
  have a: "add_alpha2_main document_example_alpha2
     = Inr (document_example_alpha2, 1, [(Some (JStr (wide ''N/A'')), Some (JStr (wide ''N/A'')))])"
    by blast
  from t main_document_example
  have "\<forall>k. k \<noteq> ''countries'' \<longrightarrow>
      dict_get document_example_alpha2 k = dict_get document_example k"
    by blast
  then have b: "dict_get document_example_alpha2 ''metadata''
      = dict_get document_example ''metadata''"
    by simp
  have c: "map (\<lambda>c. dict_get c ''medals'') (countries_of document_example_alpha2)
     = map (\<lambda>c. dict_get c ''medals'') (countries_of document_example)"
    by (simp add: countries_of_def dict_get_def document_example_def
        document_example_alpha2_def output_document_def country_json_def)
  have d: "map (\<lambda>c. dict_get c ''alpha2'') (countries_of document_example_alpha2)
     = [Some (JStr (wide ''FR'')), None]"
    by (simp add: countries_of_def dict_get_def document_example_alpha2_def)
  show ?thesis by (rule conjI [OF main_document_example conjI [OF a conjI [OF b conjI [OF c d]]]])
qed

text \<open>
  C10. The empty label is not a key of the dictionary; it is a substring of every name,
  so the partial match stops at the first item of the dictionary, United States, and
  the code is USA with no warning; the record is entered under USA.
\<close>

theorem C10_empty_label:
  "map_of COUNTRY_CODE_MAP [] = None
   \<and> find (partial_match []) COUNTRY_CODE_MAP = Some (''United States'', ''USA'')
   \<and> resolve_code [] = (wide ''USA'', [])
   \<and> normalize_country_names [([], m)] = ([(wide ''USA'', \<lparr>name = [], medals = m\<rparr>)], [])"
proof -
  have a: "map_of COUNTRY_CODE_MAP [] = None"
    by (simp add: COUNTRY_CODE_MAP_def)
  have b: "find (partial_match []) COUNTRY_CODE_MAP = Some (''United States'', ''USA'')"
    by (simp add: COUNTRY_CODE_MAP_def partial_match_empty)
  have c: "resolve_code [] = (wide ''USA'', [])"
    using a b by (simp add: resolve_code_cases)
  have d: "normalize_country_names [([], m)] = ([(wide ''USA'', \<lparr>name = [], medals = m\<rparr>)], [])"
    by (simp add: normalize_country_names_def normalize_item_def c)
  from a b c d show ?thesis by blast
qed

theorem C10_empty_label_witness:
  "resolve_code [] = (wide ''USA'', [])
   \<and> normalize_country_names [([], tally 1 0 0)]
       = ([(wide ''USA'', \<lparr>name = [], medals = tally 1 0 0\<rparr>)], [])"
  using C10_empty_label [of "tally 1 0 0"]
  by simp

end
